theory Spec2Isabelle
  imports Main "HOL-Library.FSet"
begin

section \<open>Python values used by the resolvers\<close>

text \<open>
  Keyword arguments of a resolver call. \<open>ArgCursor n\<close> is a str that the relay helper
  \<open>cursor_to_offset\<close> decodes to the offset \<open>n\<close> (the base64 text of
  \<open>arrayconnection:n\<close>); \<open>ArgStr s\<close> is any other str, whose decoding fails.
  A \<open>**args\<close> dictionary is an association list, in call order.
\<close>

datatype argval = ArgNone | ArgInt int | ArgStr string | ArgCursor int

type_synonym kwargs = "(string \<times> argval) list"

datatype py_error =
    AssertionError string
  | TypeError string
  | AttributeError string
  | IndexError string
  | InvalidQueryError string
  | Exception string

text \<open>\<open>args.get(key)\<close>: the value, or None when the key is absent.\<close>

definition args_get :: "kwargs \<Rightarrow> string \<Rightarrow> argval" where
  "args_get args k = (case map_of args k of None \<Rightarrow> ArgNone | Some v \<Rightarrow> v)"

text \<open>Truth value of an argument (\<open>if after\<close>, \<open>if before\<close>).\<close>

fun arg_truthy :: "argval \<Rightarrow> bool" where
  "arg_truthy ArgNone = False"
| "arg_truthy (ArgInt i) = (i \<noteq> 0)"
| "arg_truthy (ArgStr s) = (s \<noteq> [])"
| "arg_truthy (ArgCursor n) = True"

section \<open>The store: queries and result sets\<close>

text \<open>
  A query expression of the document store, as \<open>get_query\<close> builds it:
  \<open>Objects m\<close> is \<open>m.objects()\<close> and \<open>Filter q args\<close> is \<open>q.filter(**args)\<close>. A
  queryset is lazy: nothing is sent to the store until it is evaluated. What the store
  answers then is a function from queries to the matching documents, or to the error it
  raises (for instance when a filter keyword is not a field of the model).
\<close>

datatype 'm query = Objects 'm | Filter "'m query" kwargs

type_synonym ('m, 'd) store = "'m query \<Rightarrow> py_error + 'd list"

text \<open>What a resolver may hand back: None, a list, or a queryset.\<close>

datatype ('m, 'd) iterable = IterNone | IterList "'d list" | IterQuerySet "'m query"

text \<open>\<open>bool(iterable)\<close>: None and empty result sets are falsy; a queryset is evaluated.\<close>

fun truthy :: "('m, 'd) store \<Rightarrow> ('m, 'd) iterable \<Rightarrow> py_error + bool" where
  "truthy store IterNone = Inr False"
| "truthy store (IterList xs) = Inr (xs \<noteq> [])"
| "truthy store (IterQuerySet q) =
     (case store q of Inl e \<Rightarrow> Inl e | Inr ds \<Rightarrow> Inr (ds \<noteq> []))"

text \<open>\<open>len(iterable)\<close>: None has no length; a queryset is evaluated.\<close>

fun py_len :: "('m, 'd) store \<Rightarrow> ('m, 'd) iterable \<Rightarrow> py_error + nat" where
  "py_len store IterNone = Inl (TypeError ''object of type NoneType has no len()'')"
| "py_len store (IterList xs) = Inr (length xs)"
| "py_len store (IterQuerySet q) =
     (case store q of Inl e \<Rightarrow> Inl e | Inr ds \<Rightarrow> Inr (length ds))"

text \<open>The documents an iterable yields when it is iterated.\<close>

fun materialize :: "('m, 'd) store \<Rightarrow> ('m, 'd) iterable \<Rightarrow> py_error + 'd list" where
  "materialize store IterNone = Inl (TypeError ''NoneType object is not iterable'')"
| "materialize store (IterList xs) = Inr xs"
| "materialize store (IterQuerySet q) = store q"

text \<open>Python's \<open>xs[a:b]\<close> on a list: negative indices count from the end, both are clamped.\<close>

definition py_index :: "nat \<Rightarrow> int \<Rightarrow> nat" where
  "py_index n i = (if i < 0 then nat (max 0 (int n + i)) else min n (nat i))"

definition py_slice :: "'a list \<Rightarrow> int \<Rightarrow> int \<Rightarrow> 'a list" where
  "py_slice xs a b =
     (let lo = py_index (length xs) a; hi = py_index (length xs) b
      in take (hi - lo) (drop lo xs))"

text \<open>
  \<open>iterable[a:b]\<close> followed by iteration. A list is sliced as above. A queryset is
  sliced by the store driver's cursor, which skips \<open>a\<close> documents and delivers at most
  \<open>b - a\<close>; it refuses a negative start and a stop before the start with an IndexError.
\<close>

fun py_getslice ::
  "('m, 'd) store \<Rightarrow> ('m, 'd) iterable \<Rightarrow> int \<Rightarrow> int \<Rightarrow> py_error + 'd list" where
  "py_getslice store IterNone a b = Inl (TypeError ''NoneType object is not subscriptable'')"
| "py_getslice store (IterList xs) a b = Inr (py_slice xs a b)"
| "py_getslice store (IterQuerySet q) a b =
     (case store q of
        Inl e \<Rightarrow> Inl e
      | Inr ds \<Rightarrow>
          if a < 0 then Inl (IndexError ''Cursor instances do not support negative indices'')
          else if b - a < 0
          then Inl (IndexError ''stop index must be greater than start index for slice'')
          else Inr (take (nat (b - a)) (drop (nat a) ds)))"

section \<open>The relay helper \<open>connection_from_list_slice\<close>\<close>

text \<open>
  \<open>fields.py\<close> imports \<open>connection_from_list_slice\<close> from \<open>graphql_relay\<close>. It is
  transcribed here from that library (\<open>arrayconnection.py\<close>), with cursors kept as the
  offsets they encode. It slices and enumerates the object it is given.
\<close>

datatype cursor = OffsetCursor int

definition offset_to_cursor :: "int \<Rightarrow> cursor" where
  "offset_to_cursor n = OffsetCursor n"

record 'd edge =
  node :: 'd
  cursor :: cursor

record page_info =
  start_cursor :: "cursor option"
  end_cursor :: "cursor option"
  has_previous_page :: bool
  has_next_page :: bool

text \<open>
  The connection envelope. \<open>iterable\<close> and \<open>length_attr\<close> are the two attributes that
  \<open>connection_resolver\<close> sets on the object after it is built; they are absent (None)
  on a connection that the relay helper has just returned.
\<close>

record ('m, 'd) connection =
  edges :: "'d edge list"
  page_info :: page_info
  iterable :: "('m, 'd) iterable option"
  length_attr :: "nat option"

fun get_offset_with_default :: "argval \<Rightarrow> int \<Rightarrow> int" where
  "get_offset_with_default (ArgCursor n) default_offset = n"
| "get_offset_with_default _ default_offset = default_offset"

fun is_int :: "argval \<Rightarrow> bool" where
  "is_int (ArgInt i) = True"
| "is_int _ = False"

definition connection_from_list_slice ::
  "('m, 'd) store \<Rightarrow> ('m, 'd) iterable \<Rightarrow> kwargs \<Rightarrow> int \<Rightarrow> int \<Rightarrow> int
     \<Rightarrow> py_error + ('m, 'd) connection" where
  "connection_from_list_slice store list_slice args slice_start list_length list_slice_length =
     (let before = args_get args ''before'';
          after = args_get args ''after'';
          first = args_get args ''first'';
          last = args_get args ''last'';
          slice_end = slice_start + list_slice_length;
          before_offset = get_offset_with_default before list_length;
          after_offset = get_offset_with_default after (- 1);
          start_offset0 = max (max (slice_start - 1) after_offset) (- 1) + 1;
          end_offset0 = min (min slice_end before_offset) list_length;
          end_offset = (case first of ArgInt f \<Rightarrow> min end_offset0 (start_offset0 + f)
                        | _ \<Rightarrow> end_offset0);
          start_offset = (case last of ArgInt l \<Rightarrow> max start_offset0 (end_offset - l)
                          | _ \<Rightarrow> start_offset0)
      in case py_getslice store list_slice (max (start_offset - slice_start) 0)
                (list_slice_length - (slice_end - end_offset)) of
           Inl e \<Rightarrow> Inl e
         | Inr slice \<Rightarrow>
             (let es = map (\<lambda>(i, n). \<lparr>node = n, cursor = offset_to_cursor (start_offset + int i)\<rparr>)
                         (enumerate 0 slice);
                  first_edge_cursor = (if es \<noteq> [] then Some (cursor (hd es)) else None);
                  last_edge_cursor = (if es \<noteq> [] then Some (cursor (List.last es)) else None);
                  lower_bound = (if arg_truthy after then after_offset + 1 else 0);
                  upper_bound = (if arg_truthy before then before_offset else list_length)
              in Inr \<lparr>edges = es,
                      page_info = \<lparr>start_cursor = first_edge_cursor,
                                   end_cursor = last_edge_cursor,
                                   has_previous_page = (is_int last \<and> start_offset > lower_bound),
                                   has_next_page = (is_int first \<and> end_offset < upper_bound)\<rparr>,
                      iterable = None,
                      length_attr = None\<rparr>))"

section \<open>\<open>fields.py\<close>: \<open>MongoengineConnectionField\<close> resolution\<close>

text \<open>
  The calls a resolution makes, in order: the upstream resolver, and \<open>get_query\<close>
  on the store.
\<close>

datatype ('m, 'r, 'i) event =
    ResolverCalled 'r 'i kwargs
  | GetQueryCalled 'm 'i kwargs

text \<open>\<open>get_query(model, info, **args)\<close>.\<close>

definition get_query :: "'m \<Rightarrow> 'i \<Rightarrow> kwargs \<Rightarrow> 'm query" where
  "get_query model info args =
     (if args \<noteq> [] then Filter (Objects model) args else Objects model)"

text \<open>
  \<open>connection_resolver(resolver, connection, model, root, info, **args)\<close>, lines 96 to
  114. The \<open>connection\<close> argument only names the classes of the objects that are built
  (connection, edge and page-info types) and is not a parameter of the model. The upstream
  resolver returns an iterable or raises. The result is what the call returns or raises,
  with the log of the calls made up to then.
\<close>

definition connection_resolver ::
  "('m, 'd) store \<Rightarrow> ('r \<Rightarrow> 'i \<Rightarrow> kwargs \<Rightarrow> py_error + ('m, 'd) iterable) \<Rightarrow> 'm \<Rightarrow> 'r \<Rightarrow> 'i
     \<Rightarrow> kwargs \<Rightarrow> (py_error + ('m, 'd) connection) \<times> ('m, 'r, 'i) event list" where
  "connection_resolver store resolver model root info args =
     (let log0 = [ResolverCalled root info args]
      in case resolver root info args of
           Inl e \<Rightarrow> (Inl e, log0)
         | Inr iterable0 \<Rightarrow>
        (case truthy store iterable0 of
           Inl e \<Rightarrow> (Inl e, log0)
         | Inr nonempty \<Rightarrow>
        (let (iterable1, log1) =
               (if \<not> nonempty
                then (IterQuerySet (get_query model info args),
                      log0 @ [GetQueryCalled model info args])
                else (iterable0, log0))
         in case py_len store iterable1 of
              Inl e \<Rightarrow> (Inl e, log1)
            | Inr len \<Rightarrow>
           (case connection_from_list_slice store iterable1 args 0 (int len) (int len) of
              Inl e \<Rightarrow> (Inl e, log1)
            | Inr conn \<Rightarrow>
                (Inr (conn\<lparr>iterable := Some iterable1, length_attr := Some len\<rparr>), log1)))))"

text \<open>
  \<open>merge_querysets(default_queryset, queryset)\<close>, lines 89 to 91, is
  \<open>queryset & default_queryset\<close>. Python's \<open>&\<close> is defined on two sets, where it is
  the intersection; the store's queryset class and lists do not implement it, and the
  operator then raises a TypeError.
\<close>

datatype ('m, 'd) operand = OpQuerySet "'m query" | OpSet "'d fset" | OpList "'d list"

fun py_and :: "('m, 'd) operand \<Rightarrow> ('m, 'd) operand \<Rightarrow> py_error + ('m, 'd) operand" where
  "py_and (OpSet a) (OpSet b) = Inr (OpSet (a |\<inter>| b))"
| "py_and x y = Inl (TypeError ''unsupported operand type(s) for &'')"

definition merge_querysets ::
  "('m, 'd) operand \<Rightarrow> ('m, 'd) operand \<Rightarrow> py_error + ('m, 'd) operand" where
  "merge_querysets default_queryset queryset = py_and queryset default_queryset"

section \<open>Dictionaries in insertion order\<close>

text \<open>\<open>d[k] = v\<close> on an ordered dictionary: replace in place, or append.\<close>

fun dict_set :: "('k \<times> 'v) list \<Rightarrow> 'k \<Rightarrow> 'v \<Rightarrow> ('k \<times> 'v) list" where
  "dict_set [] k v = [(k, v)]"
| "dict_set ((k', v') # ps) k v =
     (if k' = k then (k, v) # ps else (k', v') # dict_set ps k v)"

definition keys :: "('k \<times> 'v) list \<Rightarrow> 'k list" where
  "keys d = map fst d"

text \<open>\<open>d.update(other)\<close>: the entries of \<open>other\<close> are set one after the other.\<close>

definition dict_update :: "('k \<times> 'v) list \<Rightarrow> ('k \<times> 'v) list \<Rightarrow> ('k \<times> 'v) list" where
  "dict_update d other = foldl (\<lambda>acc kv. dict_set acc (fst kv) (snd kv)) d other"

section \<open>\<open>types.py\<close>: building an object type\<close>

text \<open>
  A Python class as the builder sees it: its name, the names of the classes it derives
  from (itself included), and, for a document model, its declared fields. The field
  descriptors \<open>'f\<close> belong to the store layer.
\<close>

record 'f pyclass =
  cls_name :: string
  cls_mro :: "string list"
  is_document_model :: bool
  cls_fields :: "(string \<times> 'f) list"

text \<open>
  Modelled from the spec: \<open>is_valid_mongoengine_model\<close> (\<open>utils.py\<close>, not among the
  sources) is the store layer's predicate "is this a recognized model class"; the class
  descriptor carries its answer, and None is no model.
\<close>

fun is_valid_mongoengine_model :: "'f pyclass option \<Rightarrow> bool" where
  "is_valid_mongoengine_model None = False"
| "is_valid_mongoengine_model (Some c) = is_document_model c"

text \<open>
  Modelled from the spec: \<open>get_model_fields\<close> (\<open>utils.py\<close>, not among the sources)
  returns the model's ordered mapping from field name to field descriptor.
\<close>

definition get_model_fields :: "'f pyclass \<Rightarrow> (string \<times> 'f) list" where
  "get_model_fields model = cls_fields model"

text \<open>
  The types of graphene that the code meets: \<open>Named n\<close> is a type class (a scalar such
  as \<open>String\<close>, or an object type), \<open>ListOf t\<close> and \<open>NonNull t\<close> are the wrapper
  instances \<open>List(t)\<close> and \<open>NonNull(t)\<close>, which carry \<open>t\<close> in \<open>_of_type\<close>.

  A converted field as the rest of the code inspects it: \<open>Field t\<close> is a mounted field,
  whose attribute \<open>_type\<close> is \<open>t\<close> (a nullable scalar field has the bare class, a
  required one has \<open>NonNull\<close> of it); \<open>Dynamic\<close> (a deferred reference) has no
  \<open>_type\<close>.
\<close>

datatype gtype = Named string | ListOf gtype | NonNull gtype

datatype converted = Field gtype | Dynamic string

fun has_type_attr :: "converted \<Rightarrow> bool" where
  "has_type_attr (Field t) = True"
| "has_type_attr (Dynamic n) = False"

text \<open>
  Modelled from the spec: the \<open>Registry\<close> (\<open>registry.py\<close>, not among the sources)
  associates a model identity with its output type; \<open>register\<close> stores the association,
  overwriting an earlier one.
\<close>

type_synonym registry = "(string \<times> string) list"

text \<open>
  The \<open>registry\<close> argument: None, a Registry instance (always truthy), or some other
  object, of which only the truth value matters.
\<close>

datatype registry_arg = NoRegistry | RegistryInstance registry | OtherObject bool

fun registry_truthy :: "registry_arg \<Rightarrow> bool" where
  "registry_truthy NoRegistry = False"
| "registry_truthy (RegistryInstance r) = True"
| "registry_truthy (OtherObject b) = b"

text \<open>
  An interface class given in \<open>Meta.interfaces\<close>: \<open>is_interface\<close> answers
  \<open>issubclass(interface, Interface)\<close>, \<open>is_node\<close> answers
  \<open>issubclass(interface, Node)\<close>, and \<open>iface_fields\<close> are the fields it declares
  (\<open>interface._meta.fields\<close>).
\<close>

record interface =
  iface_name :: string
  is_interface :: bool
  is_node :: bool
  iface_fields :: "(string \<times> converted) list"

text \<open>
  A class offered as connection type or as connection class; \<open>is_connection\<close> answers
  \<open>issubclass(_, Connection)\<close>.
\<close>

record connection_type =
  conn_name :: string
  conn_node :: "string option"
  is_connection :: bool

definition Connection :: connection_type where
  "Connection = \<lparr>conn_name = ''Connection'', conn_node = None, is_connection = True\<rparr>"

text \<open>
  \<open>connection_class.create_type(name, node=cls)\<close>, line 69. \<open>create_type\<close> is a class
  method of graphene's types and derives a subclass of the class it is called on. A
  connection class that does not derive from \<open>Connection\<close> is an ordinary class such as
  \<open>dict\<close>, which has no such attribute.
\<close>

definition create_type :: "connection_type \<Rightarrow> string \<Rightarrow> string \<Rightarrow> py_error + connection_type" where
  "create_type connection_class name node_cls =
     (if is_connection connection_class
      then Inr \<lparr>conn_name = name, conn_node = Some node_cls, is_connection = True\<rparr>
      else Inl (AttributeError ''type object has no attribute create_type''))"

text \<open>\<open>MongoengineObjectTypeOptions\<close>.\<close>

record 'f options =
  meta_model :: "'f pyclass"
  meta_registry :: registry
  meta_fields :: "(string \<times> converted) list"
  meta_filter_fields :: "string list option"
  meta_connection :: "connection_type option"

record 'f object_type =
  ot_name :: string
  meta :: "'f options"

definition register :: "registry \<Rightarrow> 'f object_type \<Rightarrow> registry" where
  "register reg cls = dict_set reg (cls_name (meta_model (meta cls))) (ot_name cls)"

text \<open>
  \<open>construct_fields\<close>, lines 13 to 28. The converter (\<open>converter.py\<close>, not among the
  sources) is a parameter: it returns a converted field, or nothing for a field it does
  not support. The loop carries the ordered dictionary being filled and the list of the
  fields handed to the converter.
\<close>

fun construct_fields_loop ::
  "('f \<Rightarrow> registry \<Rightarrow> converted option) \<Rightarrow> registry \<Rightarrow> string list \<Rightarrow> string list
     \<Rightarrow> (string \<times> 'f) list \<Rightarrow> (string \<times> converted) list \<times> 'f list
     \<Rightarrow> (string \<times> converted) list \<times> 'f list" where
  "construct_fields_loop conv registry only_fields exclude_fields [] acc = acc"
| "construct_fields_loop conv registry only_fields exclude_fields ((name, field) # rest)
     (fields_acc, calls) =
     (let is_not_in_only = (only_fields \<noteq> [] \<and> name \<notin> set only_fields);
          is_excluded = (name \<in> set exclude_fields)
      in if is_not_in_only \<or> is_excluded
         then construct_fields_loop conv registry only_fields exclude_fields rest (fields_acc, calls)
         else (case conv field registry of
                 None \<Rightarrow> construct_fields_loop conv registry only_fields exclude_fields rest
                           (fields_acc, calls @ [field])
               | Some c \<Rightarrow> construct_fields_loop conv registry only_fields exclude_fields rest
                           (dict_set fields_acc name c, calls @ [field])))"

definition construct_fields ::
  "('f \<Rightarrow> registry \<Rightarrow> converted option) \<Rightarrow> 'f pyclass \<Rightarrow> registry \<Rightarrow> string list \<Rightarrow> string list
     \<Rightarrow> (string \<times> converted) list \<times> 'f list" where
  "construct_fields conv model registry only_fields exclude_fields =
     construct_fields_loop conv registry only_fields exclude_fields
       (get_model_fields model) ([], [])"

text \<open>
  \<open>yank_fields_from_attrs(attrs, _as=Field)\<close> mounts every converted value as a field
  under its name, in creation order, which is the order of conversion. \<open>converted\<close>
  already stands for the mounted value.
\<close>

definition yank_fields_from_attrs :: "(string \<times> converted) list \<Rightarrow> (string \<times> converted) list" where
  "yank_fields_from_attrs attrs = attrs"

text \<open>
  The class being declared: its name and the fields written in its body (what
  \<open>yank_fields_from_attrs\<close> finds in the \<open>__dict__\<close> of the class and of its bases).
\<close>

record class_decl =
  decl_name :: string
  decl_fields :: "(string \<times> converted) list"

text \<open>The attributes of \<open>class Meta\<close>, with the defaults of line 41 to 43.\<close>

record 'f meta_args =
  arg_model :: "'f pyclass option"
  arg_registry :: registry_arg
  arg_skip_registry :: bool
  arg_only_fields :: "string list"
  arg_exclude_fields :: "string list"
  arg_filter_fields :: "string list option"
  arg_connection :: "connection_type option"
  arg_connection_class :: "connection_type option"
  arg_use_connection :: "bool option"
  arg_interfaces :: "interface list"

definition default_meta_args :: "'f meta_args" where
  "default_meta_args =
     \<lparr>arg_model = None, arg_registry = NoRegistry, arg_skip_registry = False,
      arg_only_fields = [], arg_exclude_fields = [], arg_filter_fields = None,
      arg_connection = None, arg_connection_class = None, arg_use_connection = None,
      arg_interfaces = []\<rparr>"

text \<open>
  Line 83 hands the options to \<open>ObjectType.__init_subclass_with_meta__\<close> of graphene
  (\<open>graphene/types/objecttype.py\<close>), transcribed here: it asserts that every interface
  derives from \<open>Interface\<close>, collects the fields of the interfaces and then those of the
  class body, and updates the fields already in the options with them.
\<close>

fun interface_fields ::
  "interface list \<Rightarrow> (string \<times> converted) list \<Rightarrow> py_error + (string \<times> converted) list" where
  "interface_fields [] fields_acc = Inr fields_acc"
| "interface_fields (i # rest) fields_acc =
     (if \<not> is_interface i
      then Inl (AssertionError ''All interfaces must be a subclass of Interface'')
      else interface_fields rest (dict_update fields_acc (iface_fields i)))"

definition objecttype_init_subclass_with_meta ::
  "class_decl \<Rightarrow> interface list \<Rightarrow> 'f options \<Rightarrow> py_error + 'f options" where
  "objecttype_init_subclass_with_meta cls interfaces m =
     (case interface_fields interfaces [] of
        Inl e \<Rightarrow> Inl e
      | Inr fields0 \<Rightarrow>
          (let fields1 = dict_update fields0 (decl_fields cls)
           in Inr (m\<lparr>meta_fields :=
                       (if meta_fields m \<noteq> [] then dict_update (meta_fields m) fields1
                        else fields1)\<rparr>)))"

text \<open>
  \<open>__init_subclass_with_meta__\<close>, lines 40 to 88, for the class \<open>cls\<close>, with no
  further \<open>**options\<close>. The global registry is passed in; the result is the built type
  and the registry that was used, after registration.
\<close>

definition init_subclass_with_meta ::
  "('f \<Rightarrow> registry \<Rightarrow> converted option) \<Rightarrow> registry \<Rightarrow> class_decl \<Rightarrow> 'f meta_args
     \<Rightarrow> py_error + ('f object_type \<times> registry)" where
  "init_subclass_with_meta conv global_registry cls a =
     (case (if is_valid_mongoengine_model (arg_model a) then arg_model a else None) of
        None \<Rightarrow> Inl (AssertionError ''You need to pass a valid Mongoengine Model in Meta'')
      | Some model \<Rightarrow>
     (case (if \<not> registry_truthy (arg_registry a) then RegistryInstance global_registry
            else arg_registry a) of
        NoRegistry \<Rightarrow> Inl (AssertionError ''The attribute registry needs to be an instance of Registry'')
      | OtherObject b \<Rightarrow> Inl (AssertionError ''The attribute registry needs to be an instance of Registry'')
      | RegistryInstance registry \<Rightarrow>
     (let mongoengine_fields = yank_fields_from_attrs
            (fst (construct_fields conv model registry (arg_only_fields a) (arg_exclude_fields a)));
          use_connection =
            (if arg_use_connection a = None \<and> arg_interfaces a \<noteq> []
             then Some (\<exists>i \<in> set (arg_interfaces a). is_node i)
             else arg_use_connection a)
      in case (if use_connection = Some True \<and> arg_connection a = None
               then (case create_type
                            (case arg_connection_class a of None \<Rightarrow> Connection | Some cc \<Rightarrow> cc)
                            (decl_name cls @ ''Connection'') (decl_name cls) of
                       Inl e \<Rightarrow> Inl e
                     | Inr c \<Rightarrow> Inr (Some c))
               else Inr (arg_connection a)) of
           Inl e \<Rightarrow> Inl e
         | Inr connection \<Rightarrow>
        (if (case connection of None \<Rightarrow> False | Some c \<Rightarrow> \<not> is_connection c)
         then Inl (AssertionError ''The connection must be a Connection'')
         else (case objecttype_init_subclass_with_meta cls (arg_interfaces a)
                      \<lparr>meta_model = model, meta_registry = registry,
                       meta_fields = mongoengine_fields,
                       meta_filter_fields = arg_filter_fields a,
                       meta_connection = connection\<rparr> of
                 Inl e \<Rightarrow> Inl e
               | Inr m \<Rightarrow>
                   (let t = \<lparr>ot_name = decl_name cls, meta = m\<rparr>
                    in Inr (t, if \<not> arg_skip_registry a then register registry t
                               else registry)))))))"

text \<open>
  A runtime value: its class and its primary identifier (\<open>id\<close>), an int or a str.
\<close>

datatype idval = IdInt int | IdStr string

record 'f pyobject =
  inst_type :: "'f pyclass"
  inst_id :: idval

definition isinstance :: "'f pyobject \<Rightarrow> string \<Rightarrow> bool" where
  "isinstance obj cls = (cls \<in> set (cls_mro (inst_type obj)))"

text \<open>\<open>is_type_of(cls, root, info)\<close>, lines 90 to 98.\<close>

definition is_type_of :: "'f object_type \<Rightarrow> 'f pyobject \<Rightarrow> py_error + bool" where
  "is_type_of cls root =
     (if isinstance root (ot_name cls) then Inr True
      else if \<not> is_valid_mongoengine_model (Some (inst_type root))
      then Inl (Exception ''Received incompatible instance'')
      else Inr (isinstance root (cls_name (meta_model (meta cls)))))"

text \<open>Python's \<open>str\<close> on an int (decimal, with a sign) and on a str.\<close>

definition digit_char :: "nat \<Rightarrow> char" where
  "digit_char d = char_of (48 + d)"

function str_nat :: "nat \<Rightarrow> string" where
  "str_nat n = (if n < 10 then [digit_char n] else str_nat (n div 10) @ [digit_char (n mod 10)])"
  by pat_completeness auto
termination
  by (relation "measure id") auto

declare str_nat.simps [simp del]

definition str_int :: "int \<Rightarrow> string" where
  "str_int i = (if i < 0 then CHR ''-'' # str_nat (nat (- i)) else str_nat (nat i))"

fun py_str :: "idval \<Rightarrow> string" where
  "py_str (IdInt i) = str_int i"
| "py_str (IdStr s) = s"

text \<open>Reading a decimal numeral back, to say what \<open>str\<close> of an int denotes.\<close>

definition digit_val :: "char \<Rightarrow> nat" where
  "digit_val c = of_char c - 48"

definition nat_of_digits :: "string \<Rightarrow> nat" where
  "nat_of_digits s = foldl (\<lambda>acc c. 10 * acc + digit_val c) 0 s"

fun int_of_str :: "string \<Rightarrow> int" where
  "int_of_str [] = 0"
| "int_of_str (c # cs) =
     (if c = CHR ''-'' then - int (nat_of_digits cs) else int (nat_of_digits (c # cs)))"

text \<open>\<open>resolve_id(self, info)\<close>, lines 107 to 108.\<close>

definition resolve_id :: "'f pyobject \<Rightarrow> string" where
  "resolve_id self = py_str (inst_id self)"

section \<open>\<open>fields.py\<close>: the arguments of a connection field\<close>

text \<open>
  An argument declaration: an unmounted scalar instance (what \<open>_of_type()\<close> returns) or
  an \<open>Argument\<close>, each of the scalar type named.
\<close>

datatype arg_decl = Unmounted string | Argument string




text \<open>
  \<open>MongoengineConnectionField\<close>: the object type it was declared with (\<open>_type\<close>) and
  the arguments stored by the \<open>args\<close> setter (\<open>_base_args\<close>). \<open>fields_prop\<close>,
  \<open>filter_fields_prop\<close> and \<open>args_prop\<close> are its properties \<open>fields\<close>,
  \<open>filter_fields\<close> and \<open>args\<close>.
\<close>

record 'f connection_field =
  field_type :: "'f object_type"
  base_args :: "(string \<times> arg_decl) list option"

definition fields_prop :: "'f connection_field \<Rightarrow> (string \<times> converted) list" where
  "fields_prop f = meta_fields (meta (field_type f))"

definition filter_fields_prop :: "'f connection_field \<Rightarrow> string list option" where
  "filter_fields_prop f = meta_filter_fields (meta (field_type f))"

text \<open>
  \<open>kv[1]._type._of_type()\<close>, line 70: the attribute \<open>_of_type\<close> of the field's type is
  looked up and called. A bare class has no \<open>_of_type\<close>; a wrapper has, and calling it
  instantiates the wrapped class, or fails when the wrapped type is itself a wrapper
  instance, which is not callable.
\<close>

fun call_type :: "gtype \<Rightarrow> py_error + arg_decl" where
  "call_type (Named n) = Inr (Unmounted n)"
| "call_type (ListOf t) = Inl (TypeError ''List object is not callable'')"
| "call_type (NonNull t) = Inl (TypeError ''NonNull object is not callable'')"

fun of_type_call :: "gtype \<Rightarrow> py_error + arg_decl" where
  "of_type_call (Named n) = Inl (AttributeError ''type object has no attribute _of_type'')"
| "of_type_call (ListOf t) = call_type t"
| "of_type_call (NonNull t) = call_type t"

text \<open>
  \<open>default_filter_args\<close>, lines 67 to 73: a left fold (\<open>reduce\<close>) over
  \<open>self.fields.items()\<close>, starting from the empty dictionary; an exception in a step
  ends it.
\<close>

fun default_filter_args_loop ::
  "(string \<times> converted) list \<Rightarrow> (string \<times> arg_decl) list \<Rightarrow> py_error + (string \<times> arg_decl) list" where
  "default_filter_args_loop [] r = Inr r"
| "default_filter_args_loop (kv # rest) r =
     (case snd kv of
        Field t \<Rightarrow>
          (case of_type_call t of
             Inl e \<Rightarrow> Inl e
           | Inr a \<Rightarrow> default_filter_args_loop rest (dict_set r (fst kv) a))
      | Dynamic n \<Rightarrow> default_filter_args_loop rest r)"

definition default_filter_args :: "'f connection_field \<Rightarrow> py_error + (string \<times> arg_decl) list" where
  "default_filter_args f = default_filter_args_loop (fields_prop f) []"


section \<open>Notions used to state the properties\<close>

text \<open>
  The upstream resolver returned, and its result is falsy (line 99 takes the fallback).
\<close>

definition upstream_falsy ::
  "('m, 'd) store \<Rightarrow> ('r \<Rightarrow> 'i \<Rightarrow> kwargs \<Rightarrow> py_error + ('m, 'd) iterable) \<Rightarrow> 'r \<Rightarrow> 'i \<Rightarrow> kwargs
     \<Rightarrow> bool" where
  "upstream_falsy store resolver root info args =
     (case resolver root info args of
        Inl e \<Rightarrow> False
      | Inr upstream \<Rightarrow> truthy store upstream = Inr False)"

text \<open>A call without any of the four pagination arguments.\<close>

definition no_pagination :: "kwargs \<Rightarrow> bool" where
  "no_pagination args =
     (map_of args ''first'' = None \<and> map_of args ''last'' = None \<and>
      map_of args ''before'' = None \<and> map_of args ''after'' = None)"

text \<open>The test of lines 17 to 19: the field is skipped before conversion.\<close>

definition is_skipped :: "string list \<Rightarrow> string list \<Rightarrow> string \<Rightarrow> bool" where
  "is_skipped only_fields exclude_fields name =
     ((only_fields \<noteq> [] \<and> name \<notin> set only_fields) \<or> name \<in> set exclude_fields)"

text \<open>The model fields that are not skipped, in declaration order.\<close>

definition remaining :: "string list \<Rightarrow> string list \<Rightarrow> (string \<times> 'f) list \<Rightarrow> (string \<times> 'f) list" where
  "remaining only_fields exclude_fields items =
     filter (\<lambda>(name, field). \<not> is_skipped only_fields exclude_fields name) items"

text \<open>The converter applied to each field of a list, unsupported fields dropped.\<close>

definition convert_all ::
  "('f \<Rightarrow> registry \<Rightarrow> converted option) \<Rightarrow> registry \<Rightarrow> (string \<times> 'f) list
     \<Rightarrow> (string \<times> converted) list" where
  "convert_all conv registry items =
     List.map_filter (\<lambda>(name, field). map_option (Pair name) (conv field registry)) items"

text \<open>The registry a build works with: the one supplied, else the global one.\<close>

definition used_registry :: "registry \<Rightarrow> 'f meta_args \<Rightarrow> registry" where
  "used_registry global_registry a =
     (case arg_registry a of RegistryInstance r \<Rightarrow> r | _ \<Rightarrow> global_registry)"

text \<open>
  The value of \<open>use_connection\<close> after line 62, and whether line 69 has to synthesize
  the connection type.
\<close>

definition use_connection_of :: "'f meta_args \<Rightarrow> bool option" where
  "use_connection_of a =
     (if arg_use_connection a = None \<and> arg_interfaces a \<noteq> []
      then Some (\<exists>i \<in> set (arg_interfaces a). is_node i)
      else arg_use_connection a)"

definition synthesizes :: "'f meta_args \<Rightarrow> bool" where
  "synthesizes a = (use_connection_of a = Some True \<and> arg_connection a = None)"

text \<open>
  The fields that the interfaces and the class body declare, as graphene's builder
  collects them.
\<close>

definition extra_fields :: "class_decl \<Rightarrow> interface list \<Rightarrow> (string \<times> converted) list" where
  "extra_fields cls interfaces =
     dict_update (foldl (\<lambda>acc i. dict_update acc (iface_fields i)) [] interfaces)
       (decl_fields cls)"



section \<open>Example inputs\<close>

text \<open>
  A small model in the style of \<open>tests/test_query.py\<close> (\<open>Article\<close> with a headline and
  an editor reference), with one field of a kind the example converter does not
  support, and the node type that \<open>test_should_filter\<close> declares for it, with the
  \<open>Node\<close> interface of relay, which declares the field \<open>id\<close>.
\<close>

definition example_convert :: "string \<Rightarrow> registry \<Rightarrow> converted option" where
  "example_convert field registry =
     (if field = ''StringField'' then Some (Field (NonNull (Named ''String'')))
      else if field = ''ListField'' then Some (Field (ListOf (Named ''String'')))
      else if field = ''ReferenceField'' then Some (Dynamic ''EditorNode'')
      else None)"

definition example_Article :: "string pyclass" where
  "example_Article =
     \<lparr>cls_name = ''Article'', cls_mro = [''Article'', ''Document''], is_document_model = True,
      cls_fields = [(''headline'', ''StringField''), (''editor'', ''ReferenceField''),
                    (''location'', ''PointField'')]\<rparr>"

definition example_Node :: interface where
  "example_Node =
     \<lparr>iface_name = ''Node'', is_interface = True, is_node = True,
      iface_fields = [(''id'', Field (NonNull (Named ''ID'')))]\<rparr>"

definition example_cls :: class_decl where
  "example_cls = \<lparr>decl_name = ''ArticleNode'', decl_fields = []\<rparr>"

definition example_meta :: "string meta_args" where
  "example_meta =
     default_meta_args\<lparr>arg_model := Some example_Article,
                        arg_interfaces := [example_Node],
                        arg_filter_fields := Some [''headline'']\<rparr>"

definition example_ArticleNode :: "string object_type" where
  "example_ArticleNode =
     \<lparr>ot_name = ''ArticleNode'',
      meta = \<lparr>meta_model = example_Article, meta_registry = [],
              meta_fields = [(''headline'', Field (NonNull (Named ''String''))),
                             (''editor'', Dynamic ''EditorNode''),
                             (''id'', Field (NonNull (Named ''ID'')))],
              meta_filter_fields = Some [''headline''],
              meta_connection = Some \<lparr>conn_name = ''ArticleNodeConnection'',
                                       conn_node = Some ''ArticleNode'',
                                       is_connection = True\<rparr>\<rparr>\<rparr>"


text \<open>
  A store holding the two editors of the tests; it knows the fields \<open>first_name\<close> and
  \<open>last_name\<close> only and rejects a filter on anything else.
\<close>

fun example_store :: "(string, string) store" where
  "example_store (Objects m) =
     (if m = ''Editor'' then Inr [''Penny'', ''Grant''] else Inr [])"
| "example_store (Filter q args) =
     (if \<exists>k \<in> set (keys args). k \<notin> {''first_name'', ''last_name''}
      then Inl (InvalidQueryError ''Cannot resolve field'')
      else if args = [(''first_name'', ArgStr ''Grant'')] \<and> q = Objects ''Editor''
      then Inr [''Grant'']
      else Inr [])"

section \<open>Resolution of a connection field\<close>

lemma py_slice_whole: "py_slice xs 0 (int (length xs)) = xs"
  by (simp add: py_slice_def py_index_def)

lemma py_len_materialize:
  "materialize store it = Inr xs \<Longrightarrow> py_len store it = Inr (length xs)"
  by (cases it) simp_all

lemma py_getslice_whole:
  "materialize store it = Inr xs \<Longrightarrow> py_getslice store it 0 (int (length xs)) = Inr xs"
  by (cases it) (simp_all add: py_slice_whole)

text \<open>The resolver once the upstream result and its truth value are known.\<close>

lemma connection_resolver_unfold:
  assumes "resolver root info args = Inr upstream" and "truthy store upstream = Inr nonempty"
    and "it = (if nonempty then upstream else IterQuerySet (get_query model info args))"
    and "materialize store it = Inr result"
  shows "connection_resolver store resolver model root info args =
     (case connection_from_list_slice store it args 0 (int (length result))
             (int (length result)) of
        Inl e \<Rightarrow> Inl e
      | Inr conn \<Rightarrow> Inr (conn\<lparr>iterable := Some it, length_attr := Some (length result)\<rparr>),
      ResolverCalled root info args #
        (if nonempty then [] else [GetQueryCalled model info args]))"
proof (cases nonempty)
  case True
  with assms py_len_materialize[OF assms(4)] show ?thesis
    by (simp add: connection_resolver_def split: sum.splits)
next
  case False
  with assms py_len_materialize[OF assms(4)] show ?thesis
    by (simp add: connection_resolver_def split: sum.splits)
qed

lemma connection_from_list_slice_no_pagination:
  assumes "no_pagination args" and "materialize store it = Inr xs"
  shows "connection_from_list_slice store it args 0 (int (length xs)) (int (length xs)) =
     Inr \<lparr>edges = map (\<lambda>(i, n). \<lparr>node = n, cursor = offset_to_cursor (int i)\<rparr>) (enumerate 0 xs),
          page_info = \<lparr>start_cursor = (if xs \<noteq> [] then Some (offset_to_cursor 0) else None),
                       end_cursor = (if xs \<noteq> [] then Some (offset_to_cursor (int (length xs - 1)))
                                     else None),
                       has_previous_page = False, has_next_page = False\<rparr>,
          iterable = None, length_attr = None\<rparr>"
  using assms(1) py_getslice_whole[OF assms(2)]
  by (simp add: connection_from_list_slice_def no_pagination_def args_get_def
        Let_def hd_map last_map enumerate_eq_zip hd_zip last_zip)

lemma map_node_enumerate:
  "map (node \<circ> (\<lambda>(i, n). \<lparr>node = n, cursor = f i\<rparr>)) (enumerate k xs) = xs"
  by (induction xs arbitrary: k) simp_all

text \<open>
  Two calls on which the resolution raises: the fallback query carries the pagination
  argument \<open>first\<close> as a filter, which the store rejects when the length is taken; and an
  upstream queryset is sliced up to a negative stop.
\<close>

lemma connection_resolver_rejected_filter:
  "connection_resolver example_store (\<lambda>r i a. Inr IterNone) ''Editor'' () ()
     [(''first'', ArgInt 1)] =
     (Inl (InvalidQueryError ''Cannot resolve field''),
      [ResolverCalled () () [(''first'', ArgInt 1)],
       GetQueryCalled ''Editor'' () [(''first'', ArgInt 1)]])"
  by (simp add: connection_resolver_def get_query_def keys_def)

lemma connection_resolver_negative_first:
  "connection_resolver example_store (\<lambda>r i a. Inr (IterQuerySet (Objects ''Editor''))) ''Editor''
     () () [(''first'', ArgInt (- 1))] =
     (Inl (IndexError ''stop index must be greater than start index for slice''),
      [ResolverCalled () () [(''first'', ArgInt (- 1))]])"
  by (simp add: connection_resolver_def connection_from_list_slice_def args_get_def Let_def)

text \<open>
  Claim C1. Whenever the upstream resolver returns and the result set it or the fallback
  query yields is materialized, what the resolution returns is what
  \<open>connection_from_list_slice\<close> returns for that iterable with \<open>slice_start = 0\<close> and
  \<open>list_length = list_slice_length = len(result)\<close>, with the iterable and its length
  attached (and it raises when the helper raises). When the result has two elements and the
  call has no pagination arguments, the resolution returns a connection with exactly two
  edges, one per element, neither a next nor a previous page, and the attached length 2.
\<close>

theorem connection_resolver_envelope:
  fixes store :: "('m, 'd) store"
  assumes "resolver root info args = Inr upstream" and "truthy store upstream = Inr nonempty"
    and "it = (if nonempty then upstream else IterQuerySet (get_query model info args))"
    and "materialize store it = Inr result"
  shows "fst (connection_resolver store resolver model root info args) =
           (case connection_from_list_slice store it args 0 (int (length result))
                   (int (length result)) of
              Inl e \<Rightarrow> Inl e
            | Inr conn \<Rightarrow> Inr (conn\<lparr>iterable := Some it, length_attr := Some (length result)\<rparr>)) \<and>
         (length result = 2 \<and> no_pagination args \<longrightarrow>
            (\<exists>c. fst (connection_resolver store resolver model root info args) = Inr c \<and>
                 length (edges c) = 2 \<and> map node (edges c) = result \<and>
                 \<not> has_next_page (page_info c) \<and> \<not> has_previous_page (page_info c) \<and>
                 iterable c = Some it \<and> length_attr c = Some 2))"
proof
  show "fst (connection_resolver store resolver model root info args) =
           (case connection_from_list_slice store it args 0 (int (length result))
                   (int (length result)) of
              Inl e \<Rightarrow> Inl e
            | Inr conn \<Rightarrow> Inr (conn\<lparr>iterable := Some it, length_attr := Some (length result)\<rparr>))"
    by (simp add: connection_resolver_unfold[where resolver = resolver and root = root and info = info and args = args and model = model, OF assms])
next
  show "length result = 2 \<and> no_pagination args \<longrightarrow>
            (\<exists>c. fst (connection_resolver store resolver model root info args) = Inr c \<and>
                 length (edges c) = 2 \<and> map node (edges c) = result \<and>
                 \<not> has_next_page (page_info c) \<and> \<not> has_previous_page (page_info c) \<and>
                 iterable c = Some it \<and> length_attr c = Some 2)"
  proof
    assume h: "length result = 2 \<and> no_pagination args"
    then have np: "no_pagination args" and len: "length result = 2" by simp_all
    show "\<exists>c. fst (connection_resolver store resolver model root info args) = Inr c \<and>
                 length (edges c) = 2 \<and> map node (edges c) = result \<and>
                 \<not> has_next_page (page_info c) \<and> \<not> has_previous_page (page_info c) \<and>
                 iterable c = Some it \<and> length_attr c = Some 2"
      unfolding connection_resolver_unfold[where resolver = resolver and root = root and info = info and args = args and model = model, OF assms]
        connection_from_list_slice_no_pagination[OF np assms(4)]
      using len by (simp add: map_node_enumerate)
  qed
qed

theorem connection_resolver_envelope_witness:
  "(\<lambda>(r :: unit) (i :: unit) (a :: kwargs). Inr IterNone :: py_error + (string, string) iterable)
      () () [] = Inr IterNone \<and>
   truthy example_store IterNone = Inr False \<and>
   materialize example_store (IterQuerySet (get_query ''Editor'' () [])) = Inr [''Penny'', ''Grant''] \<and>
   length [''Penny'', ''Grant''] = 2 \<and> no_pagination [] \<and>
   (\<exists>c. fst (connection_resolver example_store (\<lambda>r i a. Inr IterNone) ''Editor'' () () [])
          = Inr c \<and>
        length (edges c) = 2 \<and> map node (edges c) = [''Penny'', ''Grant''] \<and>
        \<not> has_next_page (page_info c) \<and> \<not> has_previous_page (page_info c) \<and>
        iterable c = Some (IterQuerySet (Objects ''Editor'')) \<and> length_attr c = Some 2)"
proof -
  let ?resolver = "\<lambda>(r :: unit) (i :: unit) (a :: kwargs).
                     Inr IterNone :: py_error + (string, string) iterable"
  have h1: "?resolver () () [] = Inr IterNone" by simp
  have h2: "truthy example_store (IterNone :: (string, string) iterable) = Inr False" by simp
  have h3: "IterQuerySet (Objects ''Editor'') =
              (if False then (IterNone :: (string, string) iterable)
               else IterQuerySet (get_query ''Editor'' () []))"
    by (simp add: get_query_def)
  have h4: "materialize example_store (IterQuerySet (Objects ''Editor'')) = Inr [''Penny'', ''Grant'']"
    by simp
  have h5: "length [''Penny'', ''Grant''] = 2 \<and> no_pagination []"
    by (simp add: no_pagination_def)
  from connection_resolver_envelope
         [where store = example_store and resolver = ?resolver and root = "()" and info = "()"
            and args = "[]" and model = "''Editor''", OF h1 h2 h3 h4, THEN conjunct2] h5
  have "\<exists>c. fst (connection_resolver example_store ?resolver ''Editor'' () () []) = Inr c \<and>
        length (edges c) = 2 \<and> map node (edges c) = [''Penny'', ''Grant''] \<and>
        \<not> has_next_page (page_info c) \<and> \<not> has_previous_page (page_info c) \<and>
        iterable c = Some (IterQuerySet (Objects ''Editor'')) \<and> length_attr c = Some 2"
    by blast
  with h1 h2 h4 h5 show ?thesis by (simp add: get_query_def)
qed

text \<open>
  Claim C2. A resolution calls the upstream resolver first. It calls \<open>get_query\<close>, with
  the model and the caller's arguments, exactly when the upstream resolver returned a falsy
  result (None or empty); the iterable of a returned connection is then that query, and the
  upstream result otherwise. \<open>get_query\<close> returns \<open>model.objects().filter(**args)\<close> when
  there are arguments and \<open>model.objects()\<close> when there are none.
\<close>

theorem connection_resolver_falls_back_to_get_query:
  "snd (connection_resolver store resolver model root info args) =
      ResolverCalled root info args #
        (if upstream_falsy store resolver root info args
         then [GetQueryCalled model info args] else []) \<and>
   (GetQueryCalled model info args \<in> set (snd (connection_resolver store resolver model root info args))
      \<longleftrightarrow> upstream_falsy store resolver root info args) \<and>
   (\<forall>c upstream.
      fst (connection_resolver store resolver model root info args) = Inr c \<and>
      resolver root info args = Inr upstream \<longrightarrow>
      iterable c = Some (if upstream_falsy store resolver root info args
                         then IterQuerySet (get_query model info args) else upstream)) \<and>
   get_query model info args =
     (if args = [] then Objects model else Filter (Objects model) args)"
proof -
  have log: "snd (connection_resolver store resolver model root info args) =
      ResolverCalled root info args #
        (if upstream_falsy store resolver root info args
         then [GetQueryCalled model info args] else [])"
    by (auto simp: connection_resolver_def upstream_falsy_def Let_def split: sum.splits)
  have it: "iterable c = Some (if upstream_falsy store resolver root info args
                         then IterQuerySet (get_query model info args) else upstream)"
    if "fst (connection_resolver store resolver model root info args) = Inr c"
       "resolver root info args = Inr upstream" for c upstream
    using that
    by (auto simp: connection_resolver_def upstream_falsy_def Let_def
          split: sum.splits if_splits)
  from log it show ?thesis by (auto simp: get_query_def)
qed

theorem connection_resolver_falls_back_to_get_query_witness:
  "upstream_falsy example_store (\<lambda>r i a. Inr (IterList [])) () ()
     [(''first_name'', ArgStr ''Grant'')] \<and>
   connection_resolver example_store (\<lambda>r i a. Inr (IterList [])) ''Editor'' () ()
     [(''first_name'', ArgStr ''Grant'')] =
     (Inr \<lparr>edges = [\<lparr>node = ''Grant'', cursor = OffsetCursor 0\<rparr>],
           page_info = \<lparr>start_cursor = Some (OffsetCursor 0), end_cursor = Some (OffsetCursor 0),
                        has_previous_page = False, has_next_page = False\<rparr>,
           iterable = Some (IterQuerySet
                              (Filter (Objects ''Editor'') [(''first_name'', ArgStr ''Grant'')])),
           length_attr = Some 1\<rparr>,
      [ResolverCalled () () [(''first_name'', ArgStr ''Grant'')],
       GetQueryCalled ''Editor'' () [(''first_name'', ArgStr ''Grant'')]]) \<and>
   \<not> upstream_falsy example_store (\<lambda>r i a. Inr (IterList [''Hello''])) () () [] \<and>
   snd (connection_resolver example_store (\<lambda>r i a. Inr (IterList [''Hello''])) ''Article'' () () [])
     = [ResolverCalled () () []]"
proof -
  let ?args = "[(''first_name'', ArgStr ''Grant'')]"
  let ?r1 = "\<lambda>(r :: unit) (i :: unit) (a :: kwargs).
               Inr (IterList []) :: py_error + (string, string) iterable"
  let ?r2 = "\<lambda>(r :: unit) (i :: unit) (a :: kwargs).
               Inr (IterList [''Hello'']) :: py_error + (string, string) iterable"
  have f1: "upstream_falsy example_store ?r1 () () ?args"
    and f2: "\<not> upstream_falsy example_store ?r2 () () []"
    by (simp_all add: upstream_falsy_def)
  have ev: "fst (connection_resolver example_store ?r1 ''Editor'' () () ?args) =
     Inr \<lparr>edges = [\<lparr>node = ''Grant'', cursor = OffsetCursor 0\<rparr>],
           page_info = \<lparr>start_cursor = Some (OffsetCursor 0), end_cursor = Some (OffsetCursor 0),
                        has_previous_page = False, has_next_page = False\<rparr>,
           iterable = Some (IterQuerySet (Filter (Objects ''Editor'') ?args)),
           length_attr = Some 1\<rparr>"
    by (simp add: connection_resolver_def connection_from_list_slice_def get_query_def
          args_get_def offset_to_cursor_def keys_def Let_def enumerate_eq_zip)
  have l1: "snd (connection_resolver example_store ?r1 ''Editor'' () () ?args) =
              [ResolverCalled () () ?args, GetQueryCalled ''Editor'' () ?args]"
    using connection_resolver_falls_back_to_get_query
            [where store = example_store and resolver = ?r1 and model = "''Editor''"
               and root = "()" and info = "()" and args = ?args, THEN conjunct1] f1
    by simp
  have l2: "snd (connection_resolver example_store ?r2 ''Article'' () () []) =
              [ResolverCalled () () []]"
    using connection_resolver_falls_back_to_get_query
            [where store = example_store and resolver = ?r2 and model = "''Article''"
               and root = "()" and info = "()" and args = "[]", THEN conjunct1] f2
    by simp
  from f1 f2 ev l1 l2 show ?thesis by (simp add: prod_eq_iff)
qed

lemma merge_querysets_cases:
  "merge_querysets (OpQuerySet d) (OpQuerySet q) =
     Inl (TypeError ''unsupported operand type(s) for &'') \<and>
   merge_querysets (OpSet a) (OpSet b) = Inr (OpSet (a |\<inter>| b))"
  by (simp add: merge_querysets_def inf_commute)

text \<open>
  Claim C9 asks for the intersection of two querysets. On two querysets of the store the
  code raises a TypeError instead, since the queryset class does not implement \<open>&\<close>.
\<close>

theorem merge_querysets_raises_on_querysets:
  "merge_querysets
     (OpQuerySet (Objects ''Editor'') :: (string, string) operand)
     (OpQuerySet (Filter (Objects ''Editor'') [(''first_name'', ArgStr ''Penny'')]))
     = Inl (TypeError ''unsupported operand type(s) for &'')"
  by (simp add: merge_querysets_def)

section \<open>Type matching and identifiers\<close>

text \<open>
  Claim C6. \<open>is_type_of\<close> returns true when the value is an instance of the object type
  itself; otherwise it raises when the class of the value is not a recognized model class;
  otherwise it returns whether the value is an instance of the bound model.
\<close>

theorem is_type_of_cases:
  "(isinstance root (ot_name cls) \<longrightarrow> is_type_of cls root = Inr True) \<and>
   (\<not> isinstance root (ot_name cls) \<and> \<not> is_valid_mongoengine_model (Some (inst_type root)) \<longrightarrow>
      (\<exists>msg. is_type_of cls root = Inl (Exception msg))) \<and>
   (\<not> isinstance root (ot_name cls) \<and> is_valid_mongoengine_model (Some (inst_type root)) \<longrightarrow>
      is_type_of cls root = Inr (isinstance root (cls_name (meta_model (meta cls)))))"
  by (simp add: is_type_of_def)

theorem is_type_of_cases_witness:
  "(isinstance \<lparr>inst_type = \<lparr>cls_name = ''ArticleNode'', cls_mro = [''ArticleNode'', ''ObjectType''],
                               is_document_model = False, cls_fields = []\<rparr>,
                 inst_id = IdInt 1\<rparr> (ot_name example_ArticleNode) \<and>
    is_type_of example_ArticleNode
      \<lparr>inst_type = \<lparr>cls_name = ''ArticleNode'', cls_mro = [''ArticleNode'', ''ObjectType''],
                    is_document_model = False, cls_fields = []\<rparr>,
       inst_id = IdInt 1\<rparr> = Inr True) \<and>
   (\<not> isinstance \<lparr>inst_type = \<lparr>cls_name = ''dict'', cls_mro = [''dict'', ''object''],
                                 is_document_model = False, cls_fields = []\<rparr>,
                   inst_id = IdInt 1\<rparr> (ot_name example_ArticleNode) \<and>
    \<not> is_valid_mongoengine_model
        (Some \<lparr>cls_name = ''dict'', cls_mro = [''dict'', ''object''],
               is_document_model = False, cls_fields = ([] :: (string \<times> string) list)\<rparr>) \<and>
    (\<exists>msg. is_type_of example_ArticleNode
       \<lparr>inst_type = \<lparr>cls_name = ''dict'', cls_mro = [''dict'', ''object''],
                     is_document_model = False, cls_fields = []\<rparr>,
        inst_id = IdInt 1\<rparr> = Inl (Exception msg))) \<and>
   (\<not> isinstance \<lparr>inst_type = example_Article, inst_id = IdStr ''5a1''\<rparr>
        (ot_name example_ArticleNode) \<and>
    is_valid_mongoengine_model (Some example_Article) \<and>
    is_type_of example_ArticleNode \<lparr>inst_type = example_Article, inst_id = IdStr ''5a1''\<rparr>
      = Inr True) \<and>
   (is_type_of example_ArticleNode
      \<lparr>inst_type = \<lparr>cls_name = ''Editor'', cls_mro = [''Editor'', ''Document''],
                    is_document_model = True, cls_fields = []\<rparr>,
       inst_id = IdStr ''5a2''\<rparr> = Inr False)"
  using is_type_of_cases
          [where cls = example_ArticleNode
             and root = "\<lparr>inst_type = \<lparr>cls_name = ''ArticleNode'',
                                         cls_mro = [''ArticleNode'', ''ObjectType''],
                                         is_document_model = False, cls_fields = []\<rparr>,
                           inst_id = IdInt 1\<rparr>"]
        is_type_of_cases
          [where cls = example_ArticleNode
             and root = "\<lparr>inst_type = \<lparr>cls_name = ''dict'', cls_mro = [''dict'', ''object''],
                                         is_document_model = False, cls_fields = []\<rparr>,
                           inst_id = IdInt 1\<rparr>"]
        is_type_of_cases
          [where cls = example_ArticleNode
             and root = "\<lparr>inst_type = example_Article, inst_id = IdStr ''5a1''\<rparr>"]
        is_type_of_cases
          [where cls = example_ArticleNode
             and root = "\<lparr>inst_type = \<lparr>cls_name = ''Editor'', cls_mro = [''Editor'', ''Document''],
                                         is_document_model = True, cls_fields = []\<rparr>,
                           inst_id = IdStr ''5a2''\<rparr>"]
  by (simp add: isinstance_def example_ArticleNode_def example_Article_def)

lemma digit_val_digit_char: "d < 10 \<Longrightarrow> digit_val (digit_char d) = d"
  by (simp add: digit_val_def digit_char_def)

lemma nat_of_digits_snoc: "nat_of_digits (s @ [c]) = 10 * nat_of_digits s + digit_val c"
  by (simp add: nat_of_digits_def)

lemma nat_of_digits_single: "nat_of_digits [c] = digit_val c"
  by (simp add: nat_of_digits_def)

text \<open>Reading back what \<open>str\<close> printed gives the number.\<close>

lemma nat_of_digits_str_nat: "nat_of_digits (str_nat n) = n"
proof (induction n rule: str_nat.induct)
  case (1 n)
  show ?case
  proof (cases "n < 10")
    case True
    then show ?thesis
      by (subst str_nat.simps) (simp add: nat_of_digits_single digit_val_digit_char)
  next
    case False
    with 1 have "nat_of_digits (str_nat (n div 10)) = n div 10" by simp
    with False show ?thesis
      by (subst str_nat.simps) (simp add: nat_of_digits_snoc digit_val_digit_char)
  qed
qed

lemma digit_char_not_minus: "d < 10 \<Longrightarrow> digit_char d \<noteq> CHR ''-''"
proof
  assume d: "d < 10" and eq: "digit_char d = CHR ''-''"
  from eq have "of_char (digit_char d) = (of_char (CHR ''-'') :: nat)" by simp
  with d show False by (simp add: digit_char_def)
qed

lemma str_nat_first: "\<exists>c cs. str_nat n = c # cs \<and> c \<noteq> CHR ''-''"
proof (induction n rule: str_nat.induct)
  case (1 n)
  show ?case
  proof (cases "n < 10")
    case True
    then show ?thesis
      by (subst str_nat.simps) (simp add: digit_char_not_minus)
  next
    case False
    with 1 obtain c cs where "str_nat (n div 10) = c # cs" "c \<noteq> CHR ''-''" by auto
    with False show ?thesis
      by (subst str_nat.simps) simp
  qed
qed

lemma int_of_str_str_int: "int_of_str (str_int i) = i"
proof (cases "i < 0")
  case True
  then show ?thesis by (simp add: str_int_def nat_of_digits_str_nat)
next
  case False
  obtain c cs where s: "str_nat (nat i) = c # cs" "c \<noteq> CHR ''-''"
    using str_nat_first by blast
  have "nat_of_digits (c # cs) = nat i"
    using nat_of_digits_str_nat[of "nat i"] s by simp
  with False s show ?thesis by (simp add: str_int_def)
qed

lemma str_int_42: "str_int 42 = ''42''"
  by code_simp

text \<open>
  Claim C7. \<open>resolve_id\<close> returns \<open>str\<close> of the primary identifier of the instance: the
  identifier itself when it is a str, its decimal numeral (which reads back as the same
  number) when it is an int.
\<close>

theorem resolve_id_is_str_of_id:
  "resolve_id self = py_str (inst_id self) \<and>
   (\<forall>s. inst_id self = IdStr s \<longrightarrow> resolve_id self = s) \<and>
   (\<forall>i. inst_id self = IdInt i \<longrightarrow>
      resolve_id self = str_int i \<and> int_of_str (resolve_id self) = i)"
  by (simp add: resolve_id_def int_of_str_str_int)

theorem resolve_id_is_str_of_id_witness:
  "inst_id \<lparr>inst_type = example_Article, inst_id = IdInt 42\<rparr> = IdInt 42 \<and>
   resolve_id \<lparr>inst_type = example_Article, inst_id = IdInt 42\<rparr> = ''42'' \<and>
   inst_id \<lparr>inst_type = example_Article, inst_id = IdStr ''5a1''\<rparr> = IdStr ''5a1'' \<and>
   resolve_id \<lparr>inst_type = example_Article, inst_id = IdStr ''5a1''\<rparr> = ''5a1''"
  using resolve_id_is_str_of_id [where self = "\<lparr>inst_type = example_Article, inst_id = IdInt 42\<rparr>"]
        resolve_id_is_str_of_id [where self = "\<lparr>inst_type = example_Article, inst_id = IdStr ''5a1''\<rparr>"]
  by (simp add: str_int_42)

section \<open>Building the field set\<close>

lemma keys_dict_set_list:
  "keys (dict_set d k v) = (if k \<in> set (keys d) then keys d else keys d @ [k])"
proof (induction d)
  case Nil
  show ?case by (simp add: keys_def)
next
  case (Cons p d)
  obtain k' v' where p: "p = (k', v')" by (cases p)
  from Cons show ?case unfolding p keys_def by simp
qed

lemma keys_dict_set: "set (keys (dict_set d k v)) = insert k (set (keys d))"
  by (auto simp: keys_dict_set_list)

lemma dict_set_fresh: "k \<notin> set (keys d) \<Longrightarrow> dict_set d k v = d @ [(k, v)]"
  by (induction d) (auto simp: keys_def)

lemma distinct_dict_set: "distinct (keys d) \<Longrightarrow> distinct (keys (dict_set d k v))"
  by (simp add: keys_dict_set_list)

lemma remaining_Nil: "remaining only ex [] = []"
  by (simp add: remaining_def)

lemma remaining_Cons:
  "remaining only ex ((n, f) # items) =
     (if is_skipped only ex n then remaining only ex items
      else (n, f) # remaining only ex items)"
  by (simp add: remaining_def)

lemma loop_step:
  "construct_fields_loop conv reg only ex ((n, f) # rest) (fs, calls) =
     (if is_skipped only ex n then construct_fields_loop conv reg only ex rest (fs, calls)
      else construct_fields_loop conv reg only ex rest
             (case conv f reg of None \<Rightarrow> fs | Some c \<Rightarrow> dict_set fs n c, calls @ [f]))"
  by (simp add: is_skipped_def Let_def split: option.splits)

lemma loop_calls:
  "snd (construct_fields_loop conv reg only ex items (fs, calls)) =
     calls @ map snd (remaining only ex items)"
proof (induction items arbitrary: fs calls)
  case Nil
  then show ?case by (simp add: remaining_Nil)
next
  case (Cons p items)
  obtain n f where p: "p = (n, f)" by (cases p)
  show ?case unfolding p loop_step remaining_Cons
    by (simp add: Cons.IH)
qed

lemma loop_keys:
  "set (keys (fst (construct_fields_loop conv reg only ex items (fs, calls)))) =
     set (keys fs) \<union> {n. \<exists>f c. (n, f) \<in> set (remaining only ex items) \<and> conv f reg = Some c}"
proof (induction items arbitrary: fs calls)
  case Nil
  then show ?case by (simp add: remaining_Nil)
next
  case (Cons p items)
  obtain n f where p: "p = (n, f)" by (cases p)
  show ?case unfolding p loop_step remaining_Cons
    by (cases "conv f reg") (auto simp: Cons.IH keys_dict_set)
qed

lemma convert_all_Nil: "convert_all conv reg [] = []"
  by (simp add: convert_all_def List.map_filter_simps)

lemma convert_all_Cons:
  "convert_all conv reg ((n, f) # items) =
     (case conv f reg of None \<Rightarrow> convert_all conv reg items
      | Some c \<Rightarrow> (n, c) # convert_all conv reg items)"
  by (simp add: convert_all_def List.map_filter_simps split: option.splits)

lemma loop_fresh:
  "distinct (keys items) \<Longrightarrow> set (keys items) \<inter> set (keys fs) = {} \<Longrightarrow>
   fst (construct_fields_loop conv reg only ex items (fs, calls)) =
     fs @ convert_all conv reg (remaining only ex items)"
proof (induction items arbitrary: fs calls)
  case Nil
  then show ?case by (simp add: remaining_Nil convert_all_Nil)
next
  case (Cons p items)
  obtain n f where p: "p = (n, f)" by (cases p)
  from Cons.prems p have d: "distinct (keys items)" and nf: "n \<notin> set (keys fs)"
    and ni: "n \<notin> set (keys items)" and disj: "set (keys items) \<inter> set (keys fs) = {}"
    by (auto simp: keys_def)
  show ?case
  proof (cases "is_skipped only ex n")
    case True
    then show ?thesis unfolding p loop_step remaining_Cons using Cons.IH[OF d disj] by simp
  next
    case False
    show ?thesis
    proof (cases "conv f reg")
      case None
      with False show ?thesis unfolding p loop_step remaining_Cons using Cons.IH[OF d disj]
        by (simp add: convert_all_Cons)
    next
      case (Some c)
      have disj': "set (keys items) \<inter> set (keys (dict_set fs n c)) = {}"
        using disj ni by (auto simp: keys_dict_set)
      from False Some show ?thesis unfolding p loop_step remaining_Cons
        using Cons.IH[OF d disj'] dict_set_fresh[OF nf]
        by (simp add: convert_all_Cons)
    qed
  qed
qed

lemma construct_fields_calls:
  "snd (construct_fields conv model reg only ex) = map snd (remaining only ex (get_model_fields model))"
  by (simp add: construct_fields_def loop_calls)

lemma construct_fields_keys:
  "set (keys (fst (construct_fields conv model reg only ex))) =
     {n. \<exists>f c. (n, f) \<in> set (remaining only ex (get_model_fields model)) \<and> conv f reg = Some c}"
  by (simp add: construct_fields_def loop_keys) (simp add: keys_def)

lemma construct_fields_distinct:
  "distinct (keys (get_model_fields model)) \<Longrightarrow>
   fst (construct_fields conv model reg only ex) =
     convert_all conv reg (remaining only ex (get_model_fields model))"
  using loop_fresh[of "get_model_fields model" "[]" conv reg only ex "[]"]
  by (simp add: construct_fields_def keys_def)

text \<open>
  Claim C3. With a non-empty \<open>only_fields\<close>, a field not named in it is left out; a field
  named in \<open>exclude_fields\<close> is left out whether or not \<open>only_fields\<close> names it; and
  the fields handed to the converter are exactly the remaining ones, in order. The names
  kept are those of the remaining fields that the converter supports.
\<close>

theorem construct_fields_filtering:
  "(only_fields \<noteq> [] \<and> name \<notin> set only_fields \<longrightarrow>
      name \<notin> set (keys (fst (construct_fields conv model registry only_fields exclude_fields)))) \<and>
   (name \<in> set exclude_fields \<longrightarrow>
      name \<notin> set (keys (fst (construct_fields conv model registry only_fields exclude_fields)))) \<and>
   snd (construct_fields conv model registry only_fields exclude_fields) =
      map snd (remaining only_fields exclude_fields (get_model_fields model)) \<and>
   set (keys (fst (construct_fields conv model registry only_fields exclude_fields))) =
      {n. \<exists>f c. (n, f) \<in> set (remaining only_fields exclude_fields (get_model_fields model)) \<and>
                 conv f registry = Some c}"
  by (auto simp: construct_fields_calls construct_fields_keys remaining_def is_skipped_def)

theorem construct_fields_filtering_witness:
  "([''headline'', ''editor''] \<noteq> [] \<and> ''location'' \<notin> set [''headline'', ''editor'']) \<and>
   ''location'' \<notin> set (keys (fst (construct_fields example_convert example_Article []
                                     [''headline'', ''editor''] [''editor'']))) \<and>
   (''editor'' \<in> set [''editor''] \<and> ''editor'' \<in> set [''headline'', ''editor'']) \<and>
   ''editor'' \<notin> set (keys (fst (construct_fields example_convert example_Article []
                                   [''headline'', ''editor''] [''editor'']))) \<and>
   construct_fields example_convert example_Article [] [''headline'', ''editor''] [''editor'']
     = ([(''headline'', Field (NonNull (Named ''String'')))], [''StringField''])"
proof -
  have ev: "construct_fields example_convert example_Article [] [''headline'', ''editor'']
              [''editor''] = ([(''headline'', Field (NonNull (Named ''String'')))], [''StringField''])"
    by (simp add: construct_fields_def get_model_fields_def example_Article_def
          example_convert_def)
  have a: "''location'' \<notin> set (keys (fst (construct_fields example_convert example_Article []
                                     [''headline'', ''editor''] [''editor''])))"
    using construct_fields_filtering
            [where conv = example_convert and model = example_Article and registry = "[]"
               and only_fields = "[''headline'', ''editor'']" and exclude_fields = "[''editor'']"
               and name = "''location''", THEN conjunct1]
    by simp
  have b: "''editor'' \<notin> set (keys (fst (construct_fields example_convert example_Article []
                                   [''headline'', ''editor''] [''editor''])))"
    using construct_fields_filtering
            [where conv = example_convert and model = example_Article and registry = "[]"
               and only_fields = "[''headline'', ''editor'']" and exclude_fields = "[''editor'']"
               and name = "''editor''", THEN conjunct2, THEN conjunct1]
    by simp
  from a b ev show ?thesis by simp
qed

section \<open>Building the object type\<close>

lemma keys_dict_update:
  "set (keys (dict_update d other)) = set (keys d) \<union> set (keys other)"
proof -
  have "set (keys (foldl (\<lambda>acc kv. dict_set acc (fst kv) (snd kv)) d other)) =
          set (keys d) \<union> fst ` set other" for d :: "('a \<times> 'b) list" and other
    by (induction other arbitrary: d) (auto simp: keys_dict_set)
  then show ?thesis by (simp add: dict_update_def keys_def)
qed

lemma distinct_dict_update: "distinct (keys d) \<Longrightarrow> distinct (keys (dict_update d other))"
proof -
  have "distinct (keys d) \<Longrightarrow>
        distinct (keys (foldl (\<lambda>acc kv. dict_set acc (fst kv) (snd kv)) d other))"
    for d :: "('a \<times> 'b) list" and other
    by (induction other arbitrary: d) (auto simp: distinct_dict_set)
  then show "distinct (keys d) \<Longrightarrow> distinct (keys (dict_update d other))"
    by (simp add: dict_update_def)
qed

lemma dict_update_fresh:
  "distinct (keys other) \<Longrightarrow> set (keys other) \<inter> set (keys d) = {} \<Longrightarrow>
   dict_update d other = d @ other"
proof (induction other arbitrary: d)
  case Nil
  show ?case by (simp add: dict_update_def)
next
  case (Cons p other)
  obtain k v where p: "p = (k, v)" by (cases p)
  from Cons.prems p have k: "k \<notin> set (keys d)" and d: "distinct (keys other)"
    and ko: "k \<notin> set (keys other)" and disj: "set (keys other) \<inter> set (keys d) = {}"
    by (auto simp: keys_def)
  have disj': "set (keys other) \<inter> set (keys (d @ [(k, v)])) = {}"
    using disj ko by (auto simp: keys_def)
  have "dict_update d (p # other) = dict_update (dict_set d k v) other"
    by (simp add: dict_update_def p)
  also have "\<dots> = dict_update (d @ [(k, v)]) other"
    by (simp add: dict_set_fresh[OF k])
  also have "\<dots> = (d @ [(k, v)]) @ other"
    by (rule Cons.IH[OF d disj'])
  finally show ?case by (simp add: p)
qed

lemma dict_update_Nil: "distinct (keys other) \<Longrightarrow> dict_update [] other = other"
  using dict_update_fresh[of other "[]"] by (simp add: keys_def)

lemma dict_update_empty: "dict_update d [] = d"
  by (simp add: dict_update_def)

lemma interface_fields_eq:
  "interface_fields is acc =
     (if list_all is_interface is
      then Inr (foldl (\<lambda>acc i. dict_update acc (iface_fields i)) acc is)
      else Inl (AssertionError ''All interfaces must be a subclass of Interface''))"
  by (induction "is" arbitrary: acc) auto

lemma distinct_interface_fold:
  "distinct (keys acc) \<Longrightarrow>
   distinct (keys (foldl (\<lambda>acc i. dict_update acc (iface_fields i)) acc is))"
  by (induction "is" arbitrary: acc) (auto simp: distinct_dict_update)

lemma distinct_extra_fields: "distinct (keys (extra_fields cls is))"
  unfolding extra_fields_def
  by (rule distinct_dict_update, rule distinct_interface_fold) (simp add: keys_def)

text \<open>graphene's builder in closed form.\<close>

lemma objecttype_init_subclass_with_meta_eq:
  "objecttype_init_subclass_with_meta cls is m =
     (if list_all is_interface is
      then Inr (m\<lparr>meta_fields := dict_update (meta_fields m) (extra_fields cls is)\<rparr>)
      else Inl (AssertionError ''All interfaces must be a subclass of Interface''))"
  using dict_update_Nil[OF distinct_extra_fields, of cls "is"]
  by (simp add: objecttype_init_subclass_with_meta_def interface_fields_eq extra_fields_def
        Let_def)

text \<open>
  The whole build in closed form for a valid model: the checks in the order in which the
  code makes them, and the type that is built when all of them pass.
\<close>

lemma init_subclass_with_meta_eq:
  assumes "arg_model a = Some model" and "is_document_model model"
  shows "init_subclass_with_meta conv g cls a =
     (if arg_registry a = OtherObject True
      then Inl (AssertionError ''The attribute registry needs to be an instance of Registry'')
      else if synthesizes a \<and> (\<exists>cc. arg_connection_class a = Some cc \<and> \<not> is_connection cc)
      then Inl (AttributeError ''type object has no attribute create_type'')
      else if \<exists>c. arg_connection a = Some c \<and> \<not> is_connection c
      then Inl (AssertionError ''The connection must be a Connection'')
      else if \<not> list_all is_interface (arg_interfaces a)
      then Inl (AssertionError ''All interfaces must be a subclass of Interface'')
      else (let t = \<lparr>ot_name = decl_name cls,
                      meta = \<lparr>meta_model = model, meta_registry = used_registry g a,
                              meta_fields = dict_update
                                (fst (construct_fields conv model (used_registry g a)
                                        (arg_only_fields a) (arg_exclude_fields a)))
                                (extra_fields cls (arg_interfaces a)),
                              meta_filter_fields = arg_filter_fields a,
                              meta_connection =
                                (if synthesizes a
                                 then Some \<lparr>conn_name = decl_name cls @ ''Connection'',
                                            conn_node = Some (decl_name cls),
                                            is_connection = True\<rparr>
                                 else arg_connection a)\<rparr>\<rparr>
            in Inr (t, if arg_skip_registry a then used_registry g a
                       else register (used_registry g a) t)))"
proof -
  have syn: "synthesizes a =
     ((if arg_use_connection a = None \<and> arg_interfaces a \<noteq> []
       then Some (\<exists>i \<in> set (arg_interfaces a). is_node i)
       else arg_use_connection a) = Some True \<and> arg_connection a = None)"
    by (simp add: synthesizes_def use_connection_of_def)
  show ?thesis
  proof (cases "arg_registry a")
    case NoRegistry
    with assms show ?thesis
      unfolding syn
      by (cases "arg_connection a"; cases "arg_connection_class a")
         (simp_all add: init_subclass_with_meta_def used_registry_def Let_def
            yank_fields_from_attrs_def create_type_def Connection_def
            objecttype_init_subclass_with_meta_eq)
  next
    case (RegistryInstance r)
    with assms show ?thesis
      unfolding syn
      by (cases "arg_connection a"; cases "arg_connection_class a")
         (simp_all add: init_subclass_with_meta_def used_registry_def Let_def
            yank_fields_from_attrs_def create_type_def Connection_def
            objecttype_init_subclass_with_meta_eq)
  next
    case (OtherObject b)
    with assms show ?thesis
      unfolding syn
      by (cases b; cases "arg_connection a"; cases "arg_connection_class a")
         (simp_all add: init_subclass_with_meta_def used_registry_def Let_def
            yank_fields_from_attrs_def create_type_def Connection_def
            objecttype_init_subclass_with_meta_eq)
  qed
qed

lemma init_subclass_with_meta_invalid_model:
  "\<not> is_valid_mongoengine_model (arg_model a) \<Longrightarrow>
   init_subclass_with_meta conv g cls a =
     Inl (AssertionError ''You need to pass a valid Mongoengine Model in Meta'')"
  by (simp add: init_subclass_with_meta_def)

lemma remaining_all: "remaining [] [] items = items"
  by (induction items) (auto simp: remaining_def is_skipped_def)

lemma length_convert_all:
  "length (convert_all conv reg items) =
     length items - length (filter (\<lambda>(n, f). conv f reg = None) items)"
proof (induction items)
  case Nil
  show ?case by (simp add: convert_all_Nil)
next
  case (Cons p items)
  obtain n f where p: "p = (n, f)" by (cases p)
  have le: "length (filter (\<lambda>(n, f). conv f reg = None) items) \<le> length items"
    by (rule length_filter_le)
  show ?case unfolding p convert_all_Cons using Cons.IH le
    by (cases "conv f reg") (simp_all add: Suc_diff_le)
qed

lemma keys_convert_all:
  "keys (convert_all conv reg items) = keys (filter (\<lambda>(n, f). conv f reg \<noteq> None) items)"
proof (induction items)
  case Nil
  show ?case by (simp add: convert_all_Nil keys_def)
next
  case (Cons p items)
  obtain n f where p: "p = (n, f)" by (cases p)
  show ?case unfolding p convert_all_Cons using Cons.IH
    by (cases "conv f reg") (simp_all add: keys_def)
qed

lemma unsupported_not_in_keys:
  assumes "distinct (keys items)" "(n, f) \<in> set items" "conv f reg = None"
  shows "n \<notin> set (keys (convert_all conv reg items))"
proof
  assume "n \<in> set (keys (convert_all conv reg items))"
  then have "n \<in> set (keys (filter (\<lambda>(n, f). conv f reg \<noteq> None) items))"
    by (simp only: keys_convert_all)
  then obtain f' where f': "(n, f') \<in> set items" "conv f' reg \<noteq> None"
    by (auto simp: keys_def)
  from assms(1) have "distinct (map fst items)" by (simp add: keys_def)
  from eq_key_imp_eq_value[OF this assms(2) f'(1)] have "f = f'" .
  with assms(3) f'(2) show False by simp
qed

lemma default_filter_args_loop_keys:
  "default_filter_args_loop xs r = Inr table \<Longrightarrow>
   set (keys table) = set (keys r) \<union> {n. \<exists>t. (n, Field t) \<in> set xs}"
proof (induction xs arbitrary: r)
  case Nil
  then show ?case by simp
next
  case (Cons p xs)
  obtain n v where p: "p = (n, v)" by (cases p)
  show ?case
  proof (cases v)
    case (Dynamic d)
    with Cons.prems p have "default_filter_args_loop xs r = Inr table" by simp
    from Cons.IH[OF this] show ?thesis using p Dynamic by auto
  next
    case (Field t)
    with Cons.prems p obtain a where a: "of_type_call t = Inr a"
      and rest: "default_filter_args_loop xs (dict_set r n a) = Inr table"
      by (auto split: sum.splits)
    from Cons.IH[OF rest] show ?thesis using p Field by (auto simp: keys_dict_set)
  qed
qed


lemma default_filter_args_keys:
  "default_filter_args f = Inr table \<Longrightarrow>
   set (keys table) = {n. \<exists>t. (n, Field t) \<in> set (fields_prop f)}"
  unfolding default_filter_args_def
  by (drule default_filter_args_loop_keys) (simp add: keys_def)


lemma default_filter_args_subset:
  "default_filter_args f = Inr table \<Longrightarrow> set (keys table) \<subseteq> set (keys (fields_prop f))"
  by (drule default_filter_args_keys) (force simp: keys_def)

lemma example_build:
  "init_subclass_with_meta example_convert [] example_cls example_meta =
     Inr (example_ArticleNode, [(''Article'', ''ArticleNode'')])"
  by (simp add: init_subclass_with_meta_def example_meta_def default_meta_args_def
        example_Article_def example_ArticleNode_def example_convert_def construct_fields_def
        get_model_fields_def yank_fields_from_attrs_def create_type_def Connection_def
        register_def objecttype_init_subclass_with_meta_def example_Node_def example_cls_def
        dict_update_def Let_def)

text \<open>
  Claim C4, as stated, fails: the built field set is not always the \<open>N - K\<close> supported
  fields. The example model declares three fields, one of them unsupported; built with the
  \<open>Node\<close> interface, the type has three fields, since the interface adds \<open>id\<close>.
\<close>

theorem built_fields_counterexample:
  "get_model_fields example_Article =
     [(''headline'', ''StringField''), (''editor'', ''ReferenceField''),
      (''location'', ''PointField'')] \<and>
   example_convert ''StringField'' [] \<noteq> None \<and>
   example_convert ''ReferenceField'' [] \<noteq> None \<and>
   example_convert ''PointField'' [] = None \<and>
   init_subclass_with_meta example_convert [] example_cls example_meta =
     Inr (example_ArticleNode, [(''Article'', ''ArticleNode'')]) \<and>
   keys (meta_fields (meta example_ArticleNode)) = [''headline'', ''editor'', ''id''] \<and>
   length (meta_fields (meta example_ArticleNode)) = 3"
  by (simp add: example_build)
     (simp add: get_model_fields_def example_Article_def example_convert_def
        example_ArticleNode_def keys_def)

text \<open>
  Claim C4, amended. For a valid configuration without \<open>only_fields\<close> and
  \<open>exclude_fields\<close>, and a model whose \<open>N\<close> declared fields include \<open>K\<close> that the
  converter does not support, building the type succeeds; the model contributes exactly
  its \<open>N - K\<close> supported fields, and the built field set is these updated with the fields
  that the interfaces and the class body declare, hence exactly \<open>N - K\<close> fields when they
  declare none. An unsupported field's name is in the built field set, or in a filter
  argument table derived from it, only if an interface or the class body declares a field
  of that name.
\<close>

theorem unsupported_fields_skipped:
  assumes "arg_model a = Some model" and "is_document_model model"
    and "arg_registry a \<noteq> OtherObject True"
    and "case arg_connection a of None \<Rightarrow> True | Some c \<Rightarrow> is_connection c"
    and "case arg_connection_class a of None \<Rightarrow> True | Some cc \<Rightarrow> is_connection cc"
    and "list_all is_interface (arg_interfaces a)"
    and "arg_only_fields a = []" and "arg_exclude_fields a = []"
    and "distinct (keys (get_model_fields model))"
  shows "\<exists>t reg'.
     init_subclass_with_meta conv global_registry cls a = Inr (t, reg') \<and>
     (let declared = get_model_fields model;
          unsupported = filter (\<lambda>(n, f). conv f (used_registry global_registry a) = None) declared;
          supported = filter (\<lambda>(n, f). conv f (used_registry global_registry a) \<noteq> None) declared;
          from_model = convert_all conv (used_registry global_registry a) declared;
          extra = extra_fields cls (arg_interfaces a)
      in length from_model = length declared - length unsupported \<and>
         keys from_model = keys supported \<and>
         meta_fields (meta t) = dict_update from_model extra \<and>
         set (keys (meta_fields (meta t))) = set (keys supported) \<union> set (keys extra) \<and>
         (extra = [] \<longrightarrow> length (meta_fields (meta t)) = length declared - length unsupported) \<and>
         (\<forall>n \<in> set (keys unsupported). n \<notin> set (keys extra) \<longrightarrow>
            n \<notin> set (keys (meta_fields (meta t))) \<and>
            (\<forall>table. default_filter_args \<lparr>field_type = t, base_args = b\<rparr> = Inr table \<longrightarrow>
               n \<notin> set (keys table))))"
proof -
  let ?reg = "used_registry global_registry a"
  let ?items = "get_model_fields model"
  let ?extra = "extra_fields cls (arg_interfaces a)"
  have c1: "\<not> (\<exists>c. arg_connection a = Some c \<and> \<not> is_connection c)"
    using assms(4) by (auto split: option.splits)
  have c2: "\<not> (\<exists>cc. arg_connection_class a = Some cc \<and> \<not> is_connection cc)"
    using assms(5) by (auto split: option.splits)
  have cf: "fst (construct_fields conv model ?reg [] []) = convert_all conv ?reg ?items"
    using construct_fields_distinct[OF assms(9)] by (simp add: remaining_all)
  from init_subclass_with_meta_eq[OF assms(1,2), of conv global_registry cls]
  obtain t reg' where t: "init_subclass_with_meta conv global_registry cls a = Inr (t, reg')"
    and fs: "meta_fields (meta t) = dict_update (convert_all conv ?reg ?items) ?extra"
    using assms(3,6,7,8) c1 c2 cf by (auto simp: Let_def)
  have ks: "set (keys (meta_fields (meta t))) =
              set (keys (filter (\<lambda>(n, f). conv f ?reg \<noteq> None) ?items)) \<union> set (keys ?extra)"
    unfolding fs keys_dict_update by (simp only: keys_convert_all)
  have un: "n \<notin> set (keys (meta_fields (meta t)))"
    if "n \<in> set (keys (filter (\<lambda>(n, f). conv f ?reg = None) ?items))"
       "n \<notin> set (keys ?extra)" for n
  proof -
    from that(1) obtain fd where "(n, fd) \<in> set ?items" "conv fd ?reg = None"
      by (auto simp: keys_def)
    then have "n \<notin> set (keys (convert_all conv ?reg ?items))"
      using unsupported_not_in_keys[OF assms(9)] by simp
    with that(2) show ?thesis unfolding fs keys_dict_update by simp
  qed
  have un2: "n \<notin> set (keys table)"
    if "n \<in> set (keys (filter (\<lambda>(n, f). conv f ?reg = None) ?items))"
       "n \<notin> set (keys ?extra)"
       "default_filter_args \<lparr>field_type = t, base_args = b\<rparr> = Inr table" for n table
    using un[OF that(1,2)] default_filter_args_subset[OF that(3)]
    by (auto simp: fields_prop_def)
  have len: "?extra = [] \<longrightarrow>
             length (meta_fields (meta t)) =
               length ?items - length (filter (\<lambda>(n, f). conv f ?reg = None) ?items)"
    unfolding fs by (simp add: dict_update_empty length_convert_all)
  show ?thesis
    using t fs ks un un2 len
    by (simp add: Let_def length_convert_all keys_convert_all)
qed

theorem unsupported_fields_skipped_witness:
  "arg_model example_meta = Some example_Article \<and> is_document_model example_Article \<and>
   arg_registry example_meta \<noteq> OtherObject True \<and> arg_connection example_meta = None \<and>
   arg_connection_class example_meta = None \<and>
   list_all is_interface (arg_interfaces example_meta) \<and>
   arg_only_fields example_meta = [] \<and> arg_exclude_fields example_meta = [] \<and>
   distinct (keys (get_model_fields example_Article)) \<and>
   extra_fields example_cls (arg_interfaces example_meta) =
     [(''id'', Field (NonNull (Named ''ID'')))] \<and>
   (\<exists>t reg'.
      init_subclass_with_meta example_convert [] example_cls example_meta = Inr (t, reg') \<and>
      meta_fields (meta t) =
        [(''headline'', Field (NonNull (Named ''String''))), (''editor'', Dynamic ''EditorNode''),
         (''id'', Field (NonNull (Named ''ID'')))] \<and>
      ''location'' \<notin> set (keys (meta_fields (meta t)))) \<and>
   extra_fields example_cls (arg_interfaces (example_meta\<lparr>arg_interfaces := []\<rparr>)) = [] \<and>
   (\<exists>t reg'.
      init_subclass_with_meta example_convert [] example_cls
        (example_meta\<lparr>arg_interfaces := []\<rparr>) = Inr (t, reg') \<and>
      length (meta_fields (meta t)) = 2)"
proof -
  let ?a2 = "example_meta\<lparr>arg_interfaces := []\<rparr>"
  have h: "arg_model example_meta = Some example_Article" "is_document_model example_Article"
    "arg_registry example_meta \<noteq> OtherObject True"
    "case arg_connection example_meta of None \<Rightarrow> True | Some c \<Rightarrow> is_connection c"
    "case arg_connection_class example_meta of None \<Rightarrow> True | Some cc \<Rightarrow> is_connection cc"
    "list_all is_interface (arg_interfaces example_meta)"
    "arg_only_fields example_meta = []" "arg_exclude_fields example_meta = []"
    "distinct (keys (get_model_fields example_Article))"
    by (simp_all add: example_meta_def default_meta_args_def example_Article_def
          example_Node_def get_model_fields_def keys_def)
  have h2: "arg_model ?a2 = Some example_Article"
    "arg_registry ?a2 \<noteq> OtherObject True"
    "case arg_connection ?a2 of None \<Rightarrow> True | Some c \<Rightarrow> is_connection c"
    "case arg_connection_class ?a2 of None \<Rightarrow> True | Some cc \<Rightarrow> is_connection cc"
    "list_all is_interface (arg_interfaces ?a2)"
    "arg_only_fields ?a2 = []" "arg_exclude_fields ?a2 = []"
    by (simp_all add: example_meta_def default_meta_args_def)
  have e: "arg_connection example_meta = None" "arg_connection_class example_meta = None"
    "extra_fields example_cls (arg_interfaces example_meta) =
       [(''id'', Field (NonNull (Named ''ID'')))]"
    "extra_fields example_cls (arg_interfaces ?a2) = []"
    "convert_all example_convert (used_registry [] example_meta)
       (get_model_fields example_Article) =
       [(''headline'', Field (NonNull (Named ''String''))), (''editor'', Dynamic ''EditorNode'')]"
    "length (get_model_fields example_Article) = 3"
    "filter (\<lambda>(n, f). example_convert f (used_registry [] ?a2) = None)
       (get_model_fields example_Article) = [(''location'', ''PointField'')]"
    by (simp_all add: example_meta_def default_meta_args_def example_Article_def
          example_Node_def example_cls_def extra_fields_def dict_update_def
          get_model_fields_def example_convert_def convert_all_def List.map_filter_simps)
  from unsupported_fields_skipped[OF h, of example_convert "[]" example_cls None]
  obtain t reg' where
    r: "init_subclass_with_meta example_convert [] example_cls example_meta = Inr (t, reg')" and
    p: "meta_fields (meta t) =
          dict_update (convert_all example_convert (used_registry [] example_meta)
                         (get_model_fields example_Article))
            (extra_fields example_cls (arg_interfaces example_meta))"
    unfolding Let_def by blast
  from p have f: "meta_fields (meta t) =
        [(''headline'', Field (NonNull (Named ''String''))), (''editor'', Dynamic ''EditorNode''),
         (''id'', Field (NonNull (Named ''ID'')))]"
    unfolding e by (simp add: dict_update_def)
  then have "''location'' \<notin> set (keys (meta_fields (meta t)))" by (simp add: keys_def)
  with r f have b1: "\<exists>t reg'.
      init_subclass_with_meta example_convert [] example_cls example_meta = Inr (t, reg') \<and>
      meta_fields (meta t) =
        [(''headline'', Field (NonNull (Named ''String''))), (''editor'', Dynamic ''EditorNode''),
         (''id'', Field (NonNull (Named ''ID'')))] \<and>
      ''location'' \<notin> set (keys (meta_fields (meta t)))"
    by blast
  from unsupported_fields_skipped[OF h2(1) h(2) h2(2-7) h(9), of example_convert "[]" example_cls None]
  obtain t2 reg2 where
    r2: "init_subclass_with_meta example_convert [] example_cls ?a2 = Inr (t2, reg2)" and
    p2: "extra_fields example_cls (arg_interfaces ?a2) = [] \<longrightarrow>
         length (meta_fields (meta t2)) =
           length (get_model_fields example_Article) -
           length (filter (\<lambda>(n, f). example_convert f (used_registry [] ?a2) = None)
                     (get_model_fields example_Article))"
    unfolding Let_def by blast
  from p2 have "length (meta_fields (meta t2)) = 2" unfolding e by simp
  with r2 have b2: "\<exists>t reg'.
      init_subclass_with_meta example_convert [] example_cls ?a2 = Inr (t, reg') \<and>
      length (meta_fields (meta t)) = 2"
    by blast
  from h e b1 b2 show ?thesis by simp
qed

text \<open>
  Claim C5, as stated, fails: a supplied registry that is not a Registry instance does not
  make the build fail when it is falsy (an empty dictionary, say); line 49 replaces it by
  the global registry.
\<close>

theorem falsy_registry_counterexample:
  "arg_registry (example_meta\<lparr>arg_registry := OtherObject False\<rparr>) = OtherObject False \<and>
   init_subclass_with_meta example_convert [] example_cls
     (example_meta\<lparr>arg_registry := OtherObject False\<rparr>) =
     Inr (example_ArticleNode, [(''Article'', ''ArticleNode'')])"
  by (simp add: init_subclass_with_meta_def example_meta_def default_meta_args_def
        example_Article_def example_ArticleNode_def example_convert_def construct_fields_def
        get_model_fields_def yank_fields_from_attrs_def create_type_def Connection_def
        register_def objecttype_init_subclass_with_meta_def example_Node_def example_cls_def
        dict_update_def Let_def)

text \<open>
  Claim C5, amended. Building an object type fails, while the class is being declared,
  exactly when the model is not a recognized document-model class, or the supplied registry
  is truthy and not a Registry instance, or the supplied connection type is not a subclass
  of Connection, or a connection type has to be synthesized from a connection class that
  is not a subclass of Connection, or an interface is not a subclass of Interface; in every
  other case it completes. A falsy registry counts as not supplied. The failure is an
  assertion error, except for the synthesis from an unfit connection class.
\<close>

theorem init_subclass_with_meta_fails_iff:
  "((\<exists>e. init_subclass_with_meta conv global_registry cls a = Inl e) \<longleftrightarrow>
      (\<not> is_valid_mongoengine_model (arg_model a) \<or> arg_registry a = OtherObject True \<or>
       (\<exists>c. arg_connection a = Some c \<and> \<not> is_connection c) \<or>
       (synthesizes a \<and> (\<exists>cc. arg_connection_class a = Some cc \<and> \<not> is_connection cc)) \<or>
       \<not> list_all is_interface (arg_interfaces a))) \<and>
   (\<forall>e. init_subclass_with_meta conv global_registry cls a = Inl e \<longrightarrow>
        (\<exists>msg. e = AssertionError msg) \<or>
        ((\<exists>msg. e = AttributeError msg) \<and> synthesizes a \<and>
         (\<exists>cc. arg_connection_class a = Some cc \<and> \<not> is_connection cc)))"
proof (cases "is_valid_mongoengine_model (arg_model a)")
  case False
  then show ?thesis by (simp add: init_subclass_with_meta_invalid_model)
next
  case True
  then obtain model where m: "arg_model a = Some model" "is_document_model model"
    by (cases "arg_model a") auto
  show ?thesis
    unfolding init_subclass_with_meta_eq[OF m]
    using True by (auto simp: Let_def)
qed

theorem init_subclass_with_meta_fails_iff_witness:
  "(\<not> is_valid_mongoengine_model (arg_model (default_meta_args :: string meta_args)) \<and>
    (\<exists>e. init_subclass_with_meta example_convert [] example_cls default_meta_args = Inl e)) \<and>
   (arg_registry (example_meta\<lparr>arg_registry := OtherObject True\<rparr>) = OtherObject True \<and>
    (\<exists>e. init_subclass_with_meta example_convert [] example_cls
            (example_meta\<lparr>arg_registry := OtherObject True\<rparr>) = Inl e)) \<and>
   (arg_connection (example_meta\<lparr>arg_connection :=
        Some \<lparr>conn_name = ''dict'', conn_node = None, is_connection = False\<rparr>\<rparr>)
      = Some \<lparr>conn_name = ''dict'', conn_node = None, is_connection = False\<rparr> \<and>
    (\<exists>e. init_subclass_with_meta example_convert [] example_cls
            (example_meta\<lparr>arg_connection :=
               Some \<lparr>conn_name = ''dict'', conn_node = None, is_connection = False\<rparr>\<rparr>) = Inl e)) \<and>
   (synthesizes (example_meta\<lparr>arg_connection_class :=
        Some \<lparr>conn_name = ''dict'', conn_node = None, is_connection = False\<rparr>\<rparr>) \<and>
    (\<exists>e. init_subclass_with_meta example_convert [] example_cls
            (example_meta\<lparr>arg_connection_class :=
               Some \<lparr>conn_name = ''dict'', conn_node = None, is_connection = False\<rparr>\<rparr>) = Inl e)) \<and>
   (\<not> list_all is_interface
        (arg_interfaces (example_meta\<lparr>arg_interfaces :=
           [\<lparr>iface_name = ''dict'', is_interface = False, is_node = False, iface_fields = []\<rparr>]\<rparr>)) \<and>
    (\<exists>e. init_subclass_with_meta example_convert [] example_cls
            (example_meta\<lparr>arg_interfaces :=
               [\<lparr>iface_name = ''dict'', is_interface = False, is_node = False,
                 iface_fields = []\<rparr>]\<rparr>) = Inl e)) \<and>
   (is_valid_mongoengine_model (arg_model example_meta) \<and>
    arg_registry example_meta = NoRegistry \<and> arg_connection example_meta = None \<and>
    arg_connection_class example_meta = None \<and>
    list_all is_interface (arg_interfaces example_meta) \<and>
    (\<nexists>e. init_subclass_with_meta example_convert [] example_cls example_meta = Inl e))"
  using init_subclass_with_meta_fails_iff
          [where conv = example_convert and global_registry = "[]" and cls = example_cls
             and a = "default_meta_args :: string meta_args", THEN conjunct1]
        init_subclass_with_meta_fails_iff
          [where conv = example_convert and global_registry = "[]" and cls = example_cls
             and a = "example_meta\<lparr>arg_registry := OtherObject True\<rparr>", THEN conjunct1]
        init_subclass_with_meta_fails_iff
          [where conv = example_convert and global_registry = "[]" and cls = example_cls
             and a = "example_meta\<lparr>arg_connection :=
               Some \<lparr>conn_name = ''dict'', conn_node = None, is_connection = False\<rparr>\<rparr>",
           THEN conjunct1]
        init_subclass_with_meta_fails_iff
          [where conv = example_convert and global_registry = "[]" and cls = example_cls
             and a = "example_meta\<lparr>arg_connection_class :=
               Some \<lparr>conn_name = ''dict'', conn_node = None, is_connection = False\<rparr>\<rparr>",
           THEN conjunct1]
        init_subclass_with_meta_fails_iff
          [where conv = example_convert and global_registry = "[]" and cls = example_cls
             and a = "example_meta\<lparr>arg_interfaces :=
               [\<lparr>iface_name = ''dict'', is_interface = False, is_node = False,
                 iface_fields = []\<rparr>]\<rparr>", THEN conjunct1]
        init_subclass_with_meta_fails_iff
          [where conv = example_convert and global_registry = "[]" and cls = example_cls
             and a = example_meta, THEN conjunct1]
  by (simp add: example_meta_def default_meta_args_def example_Article_def example_Node_def
        synthesizes_def use_connection_of_def)

section \<open>The arguments of a connection field\<close>












section \<open>The filter-field whitelist\<close>

text \<open>
  The derivation of the filter arguments reads the fields of the type only, so replacing
  \<open>filter_fields\<close> does not change its outcome; and when it returns a table, every field
  with a \<open>_type\<close> attribute has an entry in it.
\<close>

lemma default_filter_args_ignores_filter_fields:
  "default_filter_args
     (f\<lparr>field_type := (field_type f)\<lparr>meta := (meta (field_type f))\<lparr>meta_filter_fields := ff\<rparr>\<rparr>\<rparr>)
     = default_filter_args f"
  by (simp add: default_filter_args_def fields_prop_def)

lemma default_filter_args_entries:
  assumes "default_filter_args f = Inr table" and "(n, v) \<in> set (fields_prop f)"
    and "has_type_attr v"
  shows "n \<in> set (keys table)"
  using assms(2,3) unfolding default_filter_args_keys[OF assms(1)] by (cases v) auto

text \<open>The derivation raises exactly when the call on line 70 raises for some field.\<close>

lemma default_filter_args_loop_raises:
  "(\<exists>e. default_filter_args_loop xs r = Inl e) \<longleftrightarrow>
   (\<exists>n t e. (n, Field t) \<in> set xs \<and> of_type_call t = Inl e)"
proof (induction xs arbitrary: r)
  case Nil
  show ?case by simp
next
  case (Cons p xs)
  obtain n v where p: "p = (n, v)" by (cases p)
  show ?case
  proof (cases v)
    case (Dynamic d)
    with p Cons.IH[of r] show ?thesis by auto
  next
    case (Field t)
    show ?thesis
    proof (cases "of_type_call t")
      case (Inl e)
      with p Field show ?thesis by auto
    next
      case (Inr a)
      with p Field Cons.IH[of "dict_set r n a"] show ?thesis by auto
    qed
  qed
qed

lemma default_filter_args_raises:
  "(\<exists>e. default_filter_args f = Inl e) \<longleftrightarrow>
   (\<exists>n t e. (n, Field t) \<in> set (fields_prop f) \<and> of_type_call t = Inl e)"
  unfolding default_filter_args_def by (rule default_filter_args_loop_raises)

text \<open>
  Claim C10 asks for an entry in the derived table for every field that carries a \<open>_type\<close>
  attribute. For a type with a nullable scalar field, whose \<open>_type\<close> is the bare scalar
  class, and for a type with a required list field, whose \<open>_type\<close> wraps a list, the
  derivation raises instead and no table is derived, whatever \<open>filter_fields\<close> holds.
\<close>

theorem default_filter_args_raises_on_unwrapped_types:
  "has_type_attr (Field (Named ''String'')) \<and>
   default_filter_args
     \<lparr>field_type = example_ArticleNode
        \<lparr>meta := (meta example_ArticleNode)
           \<lparr>meta_fields := [(''headline'', Field (Named ''String''))]\<rparr>\<rparr>,
      base_args = None\<rparr>
     = Inl (AttributeError ''type object has no attribute _of_type'') \<and>
   has_type_attr (Field (NonNull (ListOf (Named ''String'')))) \<and>
   default_filter_args
     \<lparr>field_type = example_ArticleNode
        \<lparr>meta := (meta example_ArticleNode)
           \<lparr>meta_fields := [(''awards'', Field (NonNull (ListOf (Named ''String''))))]\<rparr>\<rparr>,
      base_args = None\<rparr>
     = Inl (TypeError ''List object is not callable'')"
  by (simp add: default_filter_args_def fields_prop_def)

end
